theory Spec2Isabelle
  imports Main
begin

unbundle bit_operations_syntax

section \<open>Python values\<close>

text \<open>
  The configuration document handled by \<^verbatim>\<open>exporter.py\<close> is a \<^verbatim>\<open>Dict[str, Any]\<close>: nested
  dictionaries with string keys whose leaves are \<^verbatim>\<open>None\<close>, booleans, integers, strings and
  lists. A dictionary is an association list, because \<^verbatim>\<open>str()\<close> of a Python dictionary
  lists the entries in insertion order. A string is a list of code points below 256;
  floats and the rest of Unicode are outside the model.
\<close>

datatype pyval =
    PNone
  | PBool bool
  | PInt int
  | PStr string
  | PList "pyval list"
  | PDict "(string \<times> pyval) list"

text \<open>The exceptions. \<open>OtherError\<close> stands for any class that no handler of the charm names,
  such as an error of Pebble about the path.\<close>

datatype exn =
    ExporterConfigError string
  | TypeError
  | ValueError
  | KeyError
  | AttributeError
  | ConnectionError
  | RuntimeError string
  | PrometheusConfigError string
  | OtherError string

text \<open>Truth value testing, as \<^verbatim>\<open>not x\<close>, \<^verbatim>\<open>x or y\<close> and \<^verbatim>\<open>if x\<close> do it.\<close>

fun truthy :: "pyval \<Rightarrow> bool" where
  "truthy PNone = False"
| "truthy (PBool b) = b"
| "truthy (PInt n) = (n \<noteq> 0)"
| "truthy (PStr s) = (s \<noteq> [])"
| "truthy (PList xs) = (xs \<noteq> [])"
| "truthy (PDict kvs) = (kvs \<noteq> [])"

text \<open>\<^verbatim>\<open>d.get(key, default)\<close>: only a dictionary has the method.\<close>

fun py_get :: "pyval \<Rightarrow> string \<Rightarrow> pyval \<Rightarrow> exn + pyval" where
  "py_get (PDict kvs) k dflt = Inr (case map_of kvs k of None \<Rightarrow> dflt | Some v \<Rightarrow> v)"
| "py_get _ k dflt = Inl AttributeError"

text \<open>\<^verbatim>\<open>d[key]\<close> with a string key: \<^verbatim>\<open>KeyError\<close> on a dictionary without the key,
  \<^verbatim>\<open>TypeError\<close> on every other value.\<close>

fun py_getitem :: "pyval \<Rightarrow> string \<Rightarrow> exn + pyval" where
  "py_getitem (PDict kvs) k = (case map_of kvs k of None \<Rightarrow> Inl KeyError | Some v \<Rightarrow> Inr v)"
| "py_getitem _ k = Inl TypeError"

subsection \<open>Strings\<close>

definition linesep :: string where
  "linesep = [CHR 0x0A]"

definition squote :: string where
  "squote = [CHR 0x27]"

text \<open>\<^verbatim>\<open>s.split(sep)\<close> for a separator of one character.\<close>

fun split_str :: "char \<Rightarrow> string \<Rightarrow> string list" where
  "split_str sep [] = [[]]"
| "split_str sep (c # cs) =
     (if c = sep then [] # split_str sep cs
      else (case split_str sep cs of
              [] \<Rightarrow> [[c]]
            | w # ws \<Rightarrow> (c # w) # ws))"

text \<open>\<^verbatim>\<open>sep.join(xs)\<close>.\<close>

fun join_str :: "string \<Rightarrow> string list \<Rightarrow> string" where
  "join_str sep [] = []"
| "join_str sep [x] = x"
| "join_str sep (x # y # ys) = x @ sep @ join_str sep (y # ys)"

text \<open>Decimal notation of an integer, as \<^verbatim>\<open>str(n)\<close> and an f-string print it.\<close>

definition digit_char :: "nat \<Rightarrow> char" where
  "digit_char d = ''0123456789'' ! d"

fun str_of_nat :: "nat \<Rightarrow> string" where
  "str_of_nat n = (if n < 10 then [digit_char n] else str_of_nat (n div 10) @ [digit_char (n mod 10)])"

declare str_of_nat.simps [simp del]

definition str_of_int :: "int \<Rightarrow> string" where
  "str_of_int i = (if i < 0 then CHR ''-'' # str_of_nat (nat (- i)) else str_of_nat (nat i))"

text \<open>
  \<^verbatim>\<open>int(x)\<close>. On a string: white space around the number is dropped (the characters
  9 to 13, 32, 133 and 160), then an optional sign and decimal digits follow, where single
  underscores may stand between two digits. \<^verbatim>\<open>None\<close>, lists and dictionaries raise
  \<^verbatim>\<open>TypeError\<close>, every other malformed input \<^verbatim>\<open>ValueError\<close>. (The limit of 4300 digits of
  recent interpreters is not modelled.)
\<close>

definition is_int_space :: "char \<Rightarrow> bool" where
  "is_int_space c = (of_char c \<in> {9, 10, 11, 12, 13, 32, 133, 160 :: nat})"

definition is_digit :: "char \<Rightarrow> bool" where
  "is_digit c = (48 \<le> (of_char c :: nat) \<and> (of_char c :: nat) \<le> 57)"

definition digit_val :: "char \<Rightarrow> nat" where
  "digit_val c = of_char c - 48"

definition strip_int_space :: "string \<Rightarrow> string" where
  "strip_int_space s = rev (dropWhile is_int_space (rev (dropWhile is_int_space s)))"

fun parse_digits :: "bool \<Rightarrow> string \<Rightarrow> nat \<Rightarrow> nat option" where
  "parse_digits after_digit [] acc = (if after_digit then Some acc else None)"
| "parse_digits after_digit (c # cs) acc =
     (if is_digit c then parse_digits True cs (10 * acc + digit_val c)
      else if c = CHR ''_'' \<and> after_digit then parse_digits False cs acc
      else None)"

definition parse_int :: "string \<Rightarrow> int option" where
  "parse_int s =
     (case strip_int_space s of
        [] \<Rightarrow> None
      | c # cs \<Rightarrow>
          if c = CHR ''-'' then map_option (\<lambda>n. - int n) (parse_digits False cs 0)
          else if c = CHR ''+'' then map_option int (parse_digits False cs 0)
          else map_option int (parse_digits False (c # cs) 0))"

fun py_int :: "pyval \<Rightarrow> exn + int" where
  "py_int (PInt n) = Inr n"
| "py_int (PBool b) = Inr (if b then 1 else 0)"
| "py_int (PStr s) = (case parse_int s of None \<Rightarrow> Inl ValueError | Some n \<Rightarrow> Inr n)"
| "py_int _ = Inl TypeError"

section \<open>exporter.py\<close>

subsection \<open>ExporterConfig\<close>

text \<open>
  The named tuple \<^verbatim>\<open>ExporterConfig\<close>. The two fields on which \<^verbatim>\<open>render\<close> calls the string
  method \<^verbatim>\<open>split\<close> are \<^verbatim>\<open>Optional[str]\<close> as annotated; the other fields are handed on
  unchanged, so they hold whatever the charm configuration supplied.
\<close>

record ExporterConfig =
  debug :: pyval
  customer :: pyval
  cloud :: pyval
  controller :: "string option"
  ca_cert :: pyval
  user :: pyval
  password :: pyval
  interval :: pyval
  port :: pyval
  prefixes :: "string option"
  match_interfaces :: pyval

definition controller_endpoint :: "ExporterConfig \<Rightarrow> pyval" where
  "controller_endpoint c =
     (case controller c of
        None \<Rightarrow> PStr []
      | Some s \<Rightarrow> if s = [] then PStr [] else PList (map PStr (split_str CHR '','' s)))"

definition virt_macs :: "ExporterConfig \<Rightarrow> pyval" where
  "virt_macs c =
     (case prefixes c of
        None \<Rightarrow> PList []
      | Some s \<Rightarrow> if s \<noteq> [] then PList (map PStr (split_str CHR '','' s)) else PList [])"

definition render :: "ExporterConfig \<Rightarrow> pyval" where
  "render c = PDict [
     (''debug'', debug c),
     (''customer'', PDict [
        (''name'', customer c),
        (''cloud_name'', cloud c)]),
     (''juju'', PDict [
        (''controller_endpoint'', controller_endpoint c),
        (''controller_cacert'', ca_cert c),
        (''username'', user c),
        (''password'', password c)]),
     (''exporter'', PDict [
        (''collect_interval'', interval c),
        (''port'', port c)]),
     (''detection'', PDict [
        (''virt_macs'', virt_macs c),
        (''match_interfaces'',
           (if truthy (match_interfaces c) then match_interfaces c else PStr ''.*''))])]"

subsection \<open>ExporterOCI: validation\<close>

definition REQUIRED_CONFIG :: "string list" where
  "REQUIRED_CONFIG = [
     ''customer.name'',
     ''customer.cloud_name'',
     ''juju.controller_endpoint'',
     ''juju.controller_cacert'',
     ''juju.username'',
     ''juju.password'',
     ''exporter.port'',
     ''exporter.collect_interval'',
     ''detection.virt_macs'',
     ''detection.match_interfaces'']"

text \<open>The inner loop of \<^verbatim>\<open>_validate_required_options\<close>:
  \<^verbatim>\<open>config_value = config_value.get(identifier, {})\<close> along the path.\<close>

fun lookup_path :: "pyval \<Rightarrow> string list \<Rightarrow> exn + pyval" where
  "lookup_path v [] = Inr v"
| "lookup_path v (i # is) =
     (case py_get v i (PDict []) of
        Inl e \<Rightarrow> Inl e
      | Inr v' \<Rightarrow> lookup_path v' is)"

text \<open>The outer loop, over the options to check.\<close>

fun missing_among :: "string list \<Rightarrow> pyval \<Rightarrow> exn + string list" where
  "missing_among [] config = Inr []"
| "missing_among (opt # opts) config =
     (case lookup_path config (split_str CHR ''.'' opt) of
        Inl e \<Rightarrow> Inl e
      | Inr config_value \<Rightarrow>
          (case missing_among opts config of
             Inl e \<Rightarrow> Inl e
           | Inr rest \<Rightarrow> Inr (if \<not> truthy config_value then opt # rest else rest)))"

definition validate_required_options :: "pyval \<Rightarrow> exn + string list" where
  "validate_required_options config = missing_among REQUIRED_CONFIG config"

text \<open>\<^verbatim>\<open>int(config["exporter"][name])\<close>, the expression guarded by each \<^verbatim>\<open>try\<close>.\<close>

definition exporter_int :: "pyval \<Rightarrow> string \<Rightarrow> exn + int" where
  "exporter_int config name =
     (case py_getitem config ''exporter'' of
        Inl e \<Rightarrow> Inl e
      | Inr ex \<Rightarrow>
          (case py_getitem ex name of
             Inl e \<Rightarrow> Inl e
           | Inr v \<Rightarrow> py_int v))"

definition msg_port_invalid :: "int \<Rightarrow> string" where
  "msg_port_invalid p = ''Port '' @ str_of_int p @ '' is not valid port number.'' @ linesep"

definition msg_port_nan :: string where
  "msg_port_nan =
     ''Configuration option '' @ squote @ ''port'' @ squote @ '' must be a number.'' @ linesep"

definition msg_interval_nonpositive :: string where
  "msg_interval_nonpositive =
     ''Configuration option '' @ squote @ ''collect_interval'' @ squote
       @ '' must be a positive number.'' @ linesep"

definition msg_interval_nan :: string where
  "msg_interval_nan =
     ''Configuration option '' @ squote @ ''collect_interval'' @ squote
       @ '' must be a number.'' @ linesep"

text \<open>The first \<^verbatim>\<open>try\<close> block of \<^verbatim>\<open>_validate_option_values\<close>: \<^verbatim>\<open>ValueError\<close> and
  \<^verbatim>\<open>KeyError\<close> are handled, every other exception leaves the function.\<close>

definition check_port :: "pyval \<Rightarrow> exn + string" where
  "check_port config =
     (case exporter_int config ''port'' of
        Inr p \<Rightarrow> Inr (if \<not> (0 < p \<and> p < 65535) then msg_port_invalid p else [])
      | Inl ValueError \<Rightarrow> Inr msg_port_nan
      | Inl KeyError \<Rightarrow> Inr []
      | Inl e \<Rightarrow> Inl e)"

text \<open>The second \<^verbatim>\<open>try\<close> block.\<close>

definition check_interval :: "pyval \<Rightarrow> exn + string" where
  "check_interval config =
     (case exporter_int config ''collect_interval'' of
        Inr n \<Rightarrow> Inr (if n < 1 then msg_interval_nonpositive else [])
      | Inl ValueError \<Rightarrow> Inr msg_interval_nan
      | Inl KeyError \<Rightarrow> Inr []
      | Inl e \<Rightarrow> Inl e)"

definition validate_option_values :: "pyval \<Rightarrow> exn + string" where
  "validate_option_values config =
     (case check_port config of
        Inl e \<Rightarrow> Inl e
      | Inr e1 \<Rightarrow>
          (case check_interval config of
             Inl e \<Rightarrow> Inl e
           | Inr e2 \<Rightarrow> Inr (e1 @ e2)))"

definition msg_missing :: "string list \<Rightarrow> string" where
  "msg_missing missing_options =
     ''Following config options are missing: '' @ join_str '', '' missing_options @ linesep"

text \<open>\<^verbatim>\<open>validate_config\<close> returns nothing, or raises.\<close>

definition validate_config :: "pyval \<Rightarrow> exn + unit" where
  "validate_config config =
     (case validate_required_options config of
        Inl e \<Rightarrow> Inl e
      | Inr missing_options \<Rightarrow>
          (case validate_option_values config of
             Inl e \<Rightarrow> Inl e
           | Inr value_errors \<Rightarrow>
               (if (if missing_options \<noteq> [] then msg_missing missing_options else []) @ value_errors
                     \<noteq> []
                then Inl (ExporterConfigError
                       ((if missing_options \<noteq> [] then msg_missing missing_options else [])
                          @ value_errors))
                else Inr ())))"

section \<open>The fingerprint of a document\<close>

text \<open>
  \<^verbatim>\<open>hashlib.sha256(str(exporter_config).encode("utf-8")).hexdigest()\<close>: the text that
  \<^verbatim>\<open>str\<close> gives for the document, encoded in UTF-8, hashed with SHA-256 and printed in
  hexadecimal.
\<close>

subsection \<open>\<^verbatim>\<open>str\<close> and \<^verbatim>\<open>repr\<close>\<close>

definition hex_digit :: "nat \<Rightarrow> char" where
  "hex_digit d = ''0123456789abcdef'' ! d"

definition backslash :: char where
  "backslash = CHR 0x5C"

definition dquote :: char where
  "dquote = CHR 0x22"

text \<open>One character inside a string literal written with the quote \<open>q\<close>: the quote and the
  backslash are escaped, so are the characters that are not printable (below 32, 127 to 160
  and 173).\<close>

definition repr_char :: "char \<Rightarrow> char \<Rightarrow> string" where
  "repr_char q c =
     (let n = (of_char c :: nat) in
      if c = q \<or> c = backslash then [backslash, c]
      else if n = 9 then [backslash, CHR ''t'']
      else if n = 10 then [backslash, CHR ''n'']
      else if n = 13 then [backslash, CHR ''r'']
      else if n < 32 \<or> (127 \<le> n \<and> n \<le> 160) \<or> n = 173
        then [backslash, CHR ''x'', hex_digit (n div 16), hex_digit (n mod 16)]
      else [c])"

text \<open>\<^verbatim>\<open>repr\<close> of a string: single quotes, unless the string holds a single quote and no
  double quote.\<close>

definition repr_str :: "string \<Rightarrow> string" where
  "repr_str s =
     (let q = (if CHR 0x27 \<in> set s \<and> dquote \<notin> set s then dquote else CHR 0x27)
      in q # concat (map (repr_char q) s) @ [q])"

fun py_repr :: "pyval \<Rightarrow> string" where
  "py_repr PNone = ''None''"
| "py_repr (PBool b) = (if b then ''True'' else ''False'')"
| "py_repr (PInt n) = str_of_int n"
| "py_repr (PStr s) = repr_str s"
| "py_repr (PList xs) = ''['' @ join_str '', '' (map py_repr xs) @ '']''"
| "py_repr (PDict kvs) =
     ''{'' @ join_str '', '' (map (\<lambda>(k, v). repr_str k @ '': '' @ py_repr v) kvs) @ ''}''"

fun py_str :: "pyval \<Rightarrow> string" where
  "py_str (PStr s) = s"
| "py_str v = py_repr v"

text \<open>UTF-8 of code points below 256.\<close>

definition utf8_char :: "char \<Rightarrow> int list" where
  "utf8_char c =
     (let n = (of_char c :: int) in
      if n < 128 then [n] else [192 + n div 64, 128 + n mod 64])"

definition utf8 :: "string \<Rightarrow> int list" where
  "utf8 s = concat (map utf8_char s)"

subsection \<open>SHA-256\<close>

text \<open>
  The words of SHA-256 are integers from 0 up to \<open>2 ^ 32\<close>, with the wrap-around of the
  addition and the rotation written out; the bytes of the message are integers too.
\<close>

type_synonym u32 = int

text \<open>The round constants and the initial hash value, in decimal.\<close>

definition sha256_K :: "u32 list" where
  "sha256_K = [
     1116352408, 1899447441, 3049323471, 3921009573, 961987163, 1508970993,
     2453635748, 2870763221, 3624381080, 310598401, 607225278, 1426881987,
     1925078388, 2162078206, 2614888103, 3248222580, 3835390401, 4022224774,
     264347078, 604807628, 770255983, 1249150122, 1555081692, 1996064986,
     2554220882, 2821834349, 2952996808, 3210313671, 3336571891, 3584528711,
     113926993, 338241895, 666307205, 773529912, 1294757372, 1396182291,
     1695183700, 1986661051, 2177026350, 2456956037, 2730485921, 2820302411,
     3259730800, 3345764771, 3516065817, 3600352804, 4094571909, 275423344,
     430227734, 506948616, 659060556, 883997877, 958139571, 1322822218,
     1537002063, 1747873779, 1955562222, 2024104815, 2227730452, 2361852424,
     2428436474, 2756734187, 3204031479, 3329325298]"

definition sha256_H0 :: "u32 list" where
  "sha256_H0 = [
     1779033703, 3144134277, 1013904242, 2773480762,
     1359893119, 2600822924, 528734635, 1541459225]"

definition add32 :: "u32 \<Rightarrow> u32 \<Rightarrow> u32" where
  "add32 a b = (a + b) mod 4294967296"

definition shr :: "nat \<Rightarrow> u32 \<Rightarrow> u32" where
  "shr n x = x div 2 ^ n"

definition rotr :: "nat \<Rightarrow> u32 \<Rightarrow> u32" where
  "rotr n x = x div 2 ^ n + (x mod 2 ^ n) * 2 ^ (32 - n)"

definition ssig0 :: "u32 \<Rightarrow> u32" where
  "ssig0 x = rotr 7 x XOR rotr 18 x XOR shr 3 x"

definition ssig1 :: "u32 \<Rightarrow> u32" where
  "ssig1 x = rotr 17 x XOR rotr 19 x XOR shr 10 x"

definition bsig0 :: "u32 \<Rightarrow> u32" where
  "bsig0 x = rotr 2 x XOR rotr 13 x XOR rotr 22 x"

definition bsig1 :: "u32 \<Rightarrow> u32" where
  "bsig1 x = rotr 6 x XOR rotr 11 x XOR rotr 25 x"

text \<open>The message schedule is kept as a window of sixteen words: its head is the word of the
  current round, and each round appends the word sixteen rounds ahead.\<close>

definition sha256_next_w :: "u32 list \<Rightarrow> u32" where
  "sha256_next_w ws = add32 (add32 (add32 (ws ! 0) (ssig0 (ws ! 1))) (ws ! 9)) (ssig1 (ws ! 14))"

text \<open>The two sums of a round; the choice function is written \<open>g XOR (e AND (f XOR g))\<close>.\<close>

definition sha256_t1 :: "u32 list \<Rightarrow> u32 \<Rightarrow> u32 \<Rightarrow> u32" where
  "sha256_t1 st k w =
     add32 (add32 (add32 (add32 (st ! 7) (bsig1 (st ! 4)))
                         (st ! 6 XOR (st ! 4 AND (st ! 5 XOR st ! 6)))) k) w"

definition sha256_t2 :: "u32 list \<Rightarrow> u32" where
  "sha256_t2 st =
     add32 (bsig0 (st ! 0))
       ((st ! 0 AND st ! 1) XOR (st ! 0 AND st ! 2) XOR (st ! 1 AND st ! 2))"

definition sha256_shift :: "u32 list \<Rightarrow> u32 \<Rightarrow> u32 \<Rightarrow> u32 list" where
  "sha256_shift st t1 t2 =
     [add32 t1 t2, st ! 0, st ! 1, st ! 2, add32 (st ! 3) t1, st ! 4, st ! 5, st ! 6]"

fun sha256_rounds :: "u32 list \<Rightarrow> u32 list \<Rightarrow> u32 list \<Rightarrow> u32 list" where
  "sha256_rounds [] ws st = st"
| "sha256_rounds (k # ks) ws st =
     sha256_rounds ks (tl ws @ [sha256_next_w ws])
       (sha256_shift st (sha256_t1 st k (hd ws)) (sha256_t2 st))"

definition sha256_compress :: "u32 list \<Rightarrow> u32 list \<Rightarrow> u32 list" where
  "sha256_compress hs block = map2 add32 hs (sha256_rounds sha256_K block hs)"

text \<open>Four bytes make a word, the first byte in the highest place.\<close>

fun be_words :: "int list \<Rightarrow> u32 list" where
  "be_words (a # b # c # d # bs) = (((a * 256 + b) * 256 + c) * 256 + d) # be_words bs"
| "be_words _ = []"

fun sha256_blocks :: "u32 list \<Rightarrow> u32 list \<Rightarrow> u32 list" where
  "sha256_blocks hs ws =
     (if length ws < 16 then hs
      else sha256_blocks (sha256_compress hs (take 16 ws)) (drop 16 ws))"

declare sha256_blocks.simps [simp del]

fun be_bytes :: "nat \<Rightarrow> nat \<Rightarrow> int list" where
  "be_bytes 0 n = []"
| "be_bytes (Suc k) n = be_bytes k (n div 256) @ [int (n mod 256)]"

definition be64 :: "nat \<Rightarrow> int list" where
  "be64 n = be_bytes 8 n"

text \<open>Padding: the byte 128, zero bytes up to 56 modulo 64, the length in bits on 8 bytes.\<close>

definition sha256_pad :: "int list \<Rightarrow> int list" where
  "sha256_pad m =
     m @ [128] @ replicate ((64 - (length m + 9) mod 64) mod 64) 0 @ be64 (8 * length m)"

definition sha256 :: "int list \<Rightarrow> u32 list" where
  "sha256 m = sha256_blocks sha256_H0 (be_words (sha256_pad m))"

definition hex_word :: "u32 \<Rightarrow> string" where
  "hex_word w = map (\<lambda>i. hex_digit (nat ((w div 16 ^ i) mod 16))) [7, 6, 5, 4, 3, 2, 1, 0]"

definition hexdigest :: "u32 list \<Rightarrow> string" where
  "hexdigest ws = concat (map hex_word ws)"

definition fingerprint :: "pyval \<Rightarrow> string" where
  "fingerprint doc = hexdigest (sha256 (utf8 (py_str doc)))"

text \<open>
  Structural equality of two documents, as the specification words it: the same scalars, the
  same lists, and dictionaries with the same keys bound to structurally equal values, in
  whatever order the keys are listed. (On dictionaries of strings this is Python's \<^verbatim>\<open>==\<close>.)
\<close>

fun struct_eq :: "pyval \<Rightarrow> pyval \<Rightarrow> bool" where
  "struct_eq (PList xs) (PList ys) = list_all2 struct_eq xs ys"
| "struct_eq (PDict a) (PDict b) =
     (set (map fst a) = set (map fst b) \<and>
      (\<forall>(k, x) \<in> set a. \<forall>(k', y) \<in> set b. k = k' \<longrightarrow> struct_eq x y))"
| "struct_eq x y = (x = y)"

section \<open>charm.py\<close>

subsection \<open>The unit, its container and the world around it\<close>

datatype status =
    ActiveStatus
  | BlockedStatus string
  | MaintenanceStatus string
  | WaitingStatus string
  | UnknownStatus

datatype log_level = DEBUG | INFO | ERROR

text \<open>What a pass does to the outside, in the order it does it: the records of the log, the
  statuses written, the file pushed, the layer added, the restart, and the two methods that
  register the scrape target and open the port, each as one effect.\<close>

datatype effect =
    Log log_level string
  | SetStatus status
  | Push string string
  | AddLayer string pyval
  | Restart string
  | ExposeScrapeTarget
  | ReconfigureOpenPorts

text \<open>
  The charm object and what it acts on: the attribute \<^verbatim>\<open>current_config_hash\<close>, the status of
  the unit, the services of the plan that Pebble holds for the container, and the trace
  of effects so far.
\<close>

record charm =
  current_config_hash :: "string option"
  unit_status :: status
  plan_services :: pyval
  trace :: "effect list"

text \<open>The options of the charm that \<^verbatim>\<open>generate_exporter_config\<close> reads with
  \<^verbatim>\<open>self.config.get\<close>; an option that is not set reads as \<^verbatim>\<open>None\<close>.\<close>

record charm_config =
  opt_debug :: pyval
  opt_customer :: pyval
  opt_cloud_name :: pyval
  opt_controller_url :: "string option"
  opt_juju_user :: pyval
  opt_juju_password :: pyval
  opt_scrape_interval :: pyval
  opt_scrape_port :: pyval
  opt_virtual_macs :: "string option"
  opt_match_interfaces :: pyval

text \<open>
  What the collaborators answer during one pass. \<^verbatim>\<open>get_controller_ca_cert\<close> decodes an
  option or reads a file of the agent: here it is its outcome, the certificate or the
  exception it raises. \<^verbatim>\<open>yaml.safe_dump\<close> is a function of the document. Each call into
  Pebble (\<^verbatim>\<open>push\<close>, \<^verbatim>\<open>add_layer\<close>, \<^verbatim>\<open>restart\<close>), and each of the two methods that call into
  the Prometheus library and into \<^verbatim>\<open>hookenv\<close>, either succeeds (\<open>None\<close>) or raises; for
  \<^verbatim>\<open>add_layer\<close> and \<^verbatim>\<open>restart\<close>, whose exceptions are all caught alike, the message of the
  exception is enough. \<^verbatim>\<open>get_plan\<close> answers with the services of the plan.
\<close>

record env =
  can_connect :: bool
  config :: charm_config
  controller_ca_cert :: "exn + pyval"
  yaml_safe_dump :: "pyval \<Rightarrow> string"
  push_raises :: "exn option"
  scrape_target_raises :: "exn option"
  open_ports_raises :: "exn option"
  add_layer_raises :: "string option"
  restart_raises :: "string option"

definition OCI_CONFIG_MAP :: "(string \<times> string) list" where
  "OCI_CONFIG_MAP = [
     (''debug'', ''debug''),
     (''customer'', ''customer.name''),
     (''cloud-name'', ''customer.cloud_name''),
     (''controller-url'', ''juju.controller_endpoint''),
     (''juju-user'', ''juju.username''),
     (''juju-password'', ''juju.password''),
     (''scrape-interval'', ''exporter.collect_interval''),
     (''scrape-port'', ''exporter.port''),
     (''virtual-macs'', ''detection.virt_macs''),
     (''match-interfaces'', ''detection.match_interfaces'')]"

definition OCI_NAME :: string where
  "OCI_NAME = ''prometheus-juju-exporter''"

definition OCI_CONFIG_DIR :: string where
  "OCI_CONFIG_DIR = ''/var/lib/'' @ OCI_NAME"

definition OCI_CONFIG_PATH :: string where
  "OCI_CONFIG_PATH = OCI_CONFIG_DIR @ ''/config.yaml''"

definition name :: string where
  "name = ''pje''"

definition log :: "log_level \<Rightarrow> string \<Rightarrow> charm \<Rightarrow> charm" where
  "log lvl msg s = s\<lparr>trace := trace s @ [Log lvl msg]\<rparr>"

definition set_status :: "status \<Rightarrow> charm \<Rightarrow> charm" where
  "set_status st s = s\<lparr>unit_status := st, trace := trace s @ [SetStatus st]\<rparr>"

definition emit :: "effect \<Rightarrow> charm \<Rightarrow> charm" where
  "emit e s = s\<lparr>trace := trace s @ [e]\<rparr>"

text \<open>The state of a fresh charm object: \<^verbatim>\<open>__init__\<close> sets \<^verbatim>\<open>current_config_hash = None\<close>.\<close>

definition init :: "status \<Rightarrow> pyval \<Rightarrow> charm" where
  "init st plan = \<lparr>current_config_hash = None, unit_status = st, plan_services = plan, trace = []\<rparr>"

subsection \<open>Strings of the controller\<close>

text \<open>\<^verbatim>\<open>s.replace(old, new)\<close>: every occurrence of \<open>old\<close>, from the left, without overlap.
  The counter says how many characters of an occurrence just replaced are still to skip.\<close>

fun replace_from :: "string \<Rightarrow> string \<Rightarrow> nat \<Rightarrow> string \<Rightarrow> string" where
  "replace_from old new k [] = []"
| "replace_from old new (Suc k) (c # cs) = replace_from old new k cs"
| "replace_from old new 0 (c # cs) =
     (if take (length old) (c # cs) = old
      then new @ replace_from old new (length old - 1) cs
      else c # replace_from old new 0 cs)"

definition replace_str :: "string \<Rightarrow> string \<Rightarrow> string \<Rightarrow> string" where
  "replace_str old new s =
     (if old = [] then new @ concat (map (\<lambda>c. c # new) s) else replace_from old new 0 s)"

text \<open>The loop that puts the names of the charm's options in place of those of the
  exporter.\<close>

definition to_charm_options :: "string \<Rightarrow> string" where
  "to_charm_options err_msg =
     foldl (\<lambda>msg (charm_option, oci_option). replace_str oci_option charm_option msg)
       err_msg OCI_CONFIG_MAP"

definition py_format_opt :: "string option \<Rightarrow> string" where
  "py_format_opt h = (case h of None \<Rightarrow> ''None'' | Some x \<Rightarrow> x)"

definition py_format_bool :: "bool \<Rightarrow> string" where
  "py_format_bool b = (if b then ''True'' else ''False'')"

subsection \<open>The methods\<close>

definition generate_exporter_config :: "env \<Rightarrow> exn + pyval" where
  "generate_exporter_config e =
     (case controller_ca_cert e of
        Inl x \<Rightarrow> Inl x
      | Inr cert \<Rightarrow>
          Inr (render \<lparr>
            debug = opt_debug (config e),
            customer = opt_customer (config e),
            cloud = opt_cloud_name (config e),
            controller = opt_controller_url (config e),
            ca_cert = cert,
            user = opt_juju_user (config e),
            password = opt_juju_password (config e),
            interval = opt_scrape_interval (config e),
            port = opt_scrape_port (config e),
            prefixes = opt_virtual_macs (config e),
            match_interfaces = opt_match_interfaces (config e)\<rparr>))"

text \<open>\<^verbatim>\<open>ExporterOCI.apply_config\<close>: validates, then returns the YAML text of the document.\<close>

definition apply_config :: "env \<Rightarrow> pyval \<Rightarrow> charm \<Rightarrow> (exn + string) \<times> charm" where
  "apply_config e exporter_config s =
     (let s1 = log INFO ''Updating exporter service configuration.'' s in
      case validate_config exporter_config of
        Inl x \<Rightarrow> (Inl x, s1)
      | Inr _ \<Rightarrow>
          (Inr (yaml_safe_dump e exporter_config), log INFO ''Exporter configuration updated.'' s1))"

definition build_layer :: pyval where
  "build_layer = PDict [
     (''summary'', PStr ''prometheus-juju-exporter layer''),
     (''description'', PStr ''prometheus-juju-exporter layer''),
     (''services'', PDict [
        (name, PDict [
           (''override'', PStr ''replace''),
           (''summary'', PStr ''prometheus-juju-exporter service''),
           (''command'', PStr ''/bin/python3 -m prometheus_juju_exporter.cli''),
           (''startup'', PStr ''enabled'')])])]"

definition layer_services :: "pyval \<Rightarrow> pyval" where
  "layer_services layer = (case py_getitem layer ''services'' of Inr v \<Rightarrow> v | Inl _ \<Rightarrow> PDict [])"

text \<open>
  What Pebble does with \<^verbatim>\<open>add_layer(name, layer, combine=True)\<close>: each service of the layer,
  declared with \<^verbatim>\<open>override: replace\<close>, takes the place of the service of that name in
  the plan, or joins the plan.
\<close>

fun dict_update :: "string \<Rightarrow> pyval \<Rightarrow> (string \<times> pyval) list \<Rightarrow> (string \<times> pyval) list" where
  "dict_update k v [] = [(k, v)]"
| "dict_update k v ((k', v') # kvs) =
     (if k = k' then (k, v) # kvs else (k', v') # dict_update k v kvs)"

definition combine_services :: "pyval \<Rightarrow> pyval \<Rightarrow> pyval" where
  "combine_services plan new =
     (case (plan, new) of
        (PDict ps, PDict ns) \<Rightarrow> PDict (foldl (\<lambda>acc (k, v). dict_update k v acc) ps ns)
      | _ \<Rightarrow> new)"

text \<open>\<^verbatim>\<open>restart_pje\<close>: any exception of \<^verbatim>\<open>add_layer\<close> or \<^verbatim>\<open>restart\<close> is logged, and that
  is all.\<close>

definition msg_restart_failed :: "string \<Rightarrow> string" where
  "msg_restart_failed e = ''Could not restart prometheus-juju-exporter and build new layer: '' @ e"

definition msg_layer_added :: string where
  "msg_layer_added = ''Added updated layer '' @ squote @ name @ squote @ '' to Pebble plan''"

definition msg_restarted :: string where
  "msg_restarted = ''Restarted '' @ name @ '' service''"

definition restart_pje :: "env \<Rightarrow> charm \<Rightarrow> charm" where
  "restart_pje e s =
     (let layer = build_layer in
      case add_layer_raises e of
        Some x \<Rightarrow> log ERROR (msg_restart_failed x) s
      | None \<Rightarrow>
          (let s1 = log INFO msg_layer_added
                      (emit (AddLayer name layer)
                         (s\<lparr>plan_services :=
                              combine_services (plan_services s) (layer_services layer)\<rparr>))
           in case restart_raises e of
                Some x \<Rightarrow> log ERROR (msg_restart_failed x) s1
              | None \<Rightarrow>
                  set_status ActiveStatus (log INFO msg_restarted (emit (Restart name) s1))))"

text \<open>\<^verbatim>\<open>reconfigure_scrape_target\<close> logs a \<^verbatim>\<open>PrometheusConfigError\<close> and raises it again.\<close>

definition reconfigure_scrape_target :: "env \<Rightarrow> charm \<Rightarrow> exn option \<times> charm" where
  "reconfigure_scrape_target e s =
     (case scrape_target_raises e of
        None \<Rightarrow> (None, emit ExposeScrapeTarget s)
      | Some (PrometheusConfigError m) \<Rightarrow>
          (Some (PrometheusConfigError m),
           log ERROR (''Failed to configure prometheus scrape target: '' @ m) s)
      | Some x \<Rightarrow> (Some x, s))"

definition reconfigure_open_ports :: "env \<Rightarrow> charm \<Rightarrow> exn option \<times> charm" where
  "reconfigure_open_ports e s =
     (case open_ports_raises e of
        None \<Rightarrow> (None, emit ReconfigureOpenPorts s)
      | Some x \<Rightarrow> (Some x, s))"

definition msg_push_refused :: string where
  "msg_push_refused =
     ''Could not push datasource config. Pebble refused connection. Shutting down?''"

definition msg_blocked :: string where
  "msg_blocked = ''Invalid configuration. Please see logs.''"

definition msg_processing :: string where
  "msg_processing = ''Processing new charm configuration.''"

text \<open>The body of the \<^verbatim>\<open>try\<close> in \<^verbatim>\<open>_configure\<close>: apply, push, remember the hash.\<close>

definition try_apply :: "env \<Rightarrow> pyval \<Rightarrow> string \<Rightarrow> charm \<Rightarrow> exn option \<times> charm" where
  "try_apply e exporter_config exporter_config_hash s =
     (case apply_config e exporter_config s of
        (Inl x, s1) \<Rightarrow> (Some x, s1)
      | (Inr config_data, s1) \<Rightarrow>
          (let s2 = log INFO (''config_data: '' @ config_data) s1 in
           case push_raises e of
             Some x \<Rightarrow> (Some x, s2)
           | None \<Rightarrow>
               (None,
                (log INFO (''push: '' @ OCI_CONFIG_PATH) (emit (Push OCI_CONFIG_PATH config_data) s2))
                  \<lparr>current_config_hash := Some exporter_config_hash\<rparr>)))"

text \<open>\<^verbatim>\<open>_configure\<close> from the comparison of the plan on: the variable \<^verbatim>\<open>restart\<close> holds what
  the first half decided.\<close>

definition configure_rest :: "env \<Rightarrow> bool \<Rightarrow> charm \<Rightarrow> exn option \<times> charm" where
  "configure_rest e restart0 s =
     (let restart = (if \<not> struct_eq (plan_services s) (layer_services build_layer)
                     then True else restart0) in
      case reconfigure_scrape_target e s of
        (Some x, s1) \<Rightarrow> (Some x, s1)
      | (None, s1) \<Rightarrow>
          (case reconfigure_open_ports e s1 of
             (Some x, s2) \<Rightarrow> (Some x, s2)
           | (None, s2) \<Rightarrow>
               (let s3 = log INFO (''restart: '' @ py_format_bool restart) s2 in
                if restart then (None, restart_pje e s3)
                else if unit_status s3 \<noteq> ActiveStatus
                  then (None, set_status ActiveStatus s3)
                  else (None, s3))))"

text \<open>
  \<^verbatim>\<open>_configure\<close>, one reconciliation pass. The result is the exception that leaves the
  method, if one does, and the charm after the pass.
\<close>

definition configure :: "env \<Rightarrow> charm \<Rightarrow> exn option \<times> charm" where
  "configure e s =
     (if \<not> can_connect e then (None, s)
      else
        (let s1 = set_status (MaintenanceStatus msg_processing) (log INFO msg_processing s) in
         case generate_exporter_config e of
           Inl x \<Rightarrow> (Some x, s1)
         | Inr exporter_config \<Rightarrow>
             (let exporter_config_hash = fingerprint exporter_config;
                  s2 = log INFO (''current_config_hash: '' @ py_format_opt (current_config_hash s1))
                         (log INFO (''exporter_config_hash: '' @ exporter_config_hash) s1)
              in if Some exporter_config_hash \<noteq> current_config_hash s2 then
                   (case try_apply e exporter_config exporter_config_hash
                           (log INFO ''inside hash compare'' s2) of
                      (None, s3) \<Rightarrow> configure_rest e True s3
                    | (Some (ExporterConfigError m), s3) \<Rightarrow>
                        (None, set_status (BlockedStatus msg_blocked)
                                 (log ERROR (to_charm_options m) s3))
                    | (Some ConnectionError, s3) \<Rightarrow>
                        configure_rest e True (log ERROR msg_push_refused s3)
                    | (Some x, s3) \<Rightarrow> (Some x, s3))
                 else configure_rest e False s2)))"


section \<open>The specification's comma lists, and an example\<close>

text \<open>\<^verbatim>\<open>s.strip()\<close> drops the white space of Python (9 to 13, 28 to 32, 133, 160) at both
  ends.\<close>

definition is_space :: "char \<Rightarrow> bool" where
  "is_space c = (of_char c \<in> {9, 10, 11, 12, 13, 28, 29, 30, 31, 32, 133, 160 :: nat})"

definition strip_str :: "string \<Rightarrow> string" where
  "strip_str s = rev (dropWhile is_space (rev (dropWhile is_space s)))"

text \<open>
  The derivation of a comma list as the specification words it: split on the comma, trim
  each element, and an empty or absent input is the empty collection. It is compared with
  what \<^verbatim>\<open>render\<close> computes.
\<close>

definition spec_comma_list :: "string option \<Rightarrow> pyval" where
  "spec_comma_list raw =
     (case raw of
        None \<Rightarrow> PList []
      | Some s \<Rightarrow> if s = [] then PList [] else PList (map (\<lambda>w. PStr (strip_str w)) (split_str CHR '','' s)))"

text \<open>A configuration that passes validation, for the concrete instances below.\<close>

definition example_config :: ExporterConfig where
  "example_config = \<lparr>
     debug = PBool False,
     customer = PStr ''acme'',
     cloud = PStr ''k8s'',
     controller = Some ''10.0.0.1:17070'',
     ca_cert = PStr ''CERT'',
     user = PStr ''admin'',
     password = PStr ''secret'',
     interval = PInt 15,
     port = PInt 5000,
     prefixes = Some ''52:54:00,fa:16:3e'',
     match_interfaces = PStr []\<rparr>"

text \<open>The options of the charm and the answers of the collaborators that go with the
  example: every call succeeds.\<close>

definition example_options :: charm_config where
  "example_options = \<lparr>
     opt_debug = PBool False,
     opt_customer = PStr ''acme'',
     opt_cloud_name = PStr ''k8s'',
     opt_controller_url = Some ''10.0.0.1:17070'',
     opt_juju_user = PStr ''admin'',
     opt_juju_password = PStr ''secret'',
     opt_scrape_interval = PInt 15,
     opt_scrape_port = PInt 5000,
     opt_virtual_macs = Some ''52:54:00,fa:16:3e'',
     opt_match_interfaces = PStr []\<rparr>"

definition example_env :: env where
  "example_env = \<lparr>
     can_connect = True,
     config = example_options,
     controller_ca_cert = Inr (PStr ''CERT''),
     yaml_safe_dump = (\<lambda>doc. ''debug: false''),
     push_raises = None,
     scrape_target_raises = None,
     open_ports_raises = None,
     add_layer_raises = None,
     restart_raises = None\<rparr>"

text \<open>The effects that write the configuration file, install the layer and restart the
  service.\<close>

fun is_push :: "effect \<Rightarrow> bool" where
  "is_push (Push path data) = True"
| "is_push _ = False"

fun is_add_layer :: "effect \<Rightarrow> bool" where
  "is_add_layer (AddLayer n layer) = True"
| "is_add_layer _ = False"

fun is_restart :: "effect \<Rightarrow> bool" where
  "is_restart (Restart n) = True"
| "is_restart _ = False"

text \<open>A plan that holds a service of another layer, beside which the charm installs its
  own.\<close>

definition example_shared_plan :: pyval where
  "example_shared_plan = PDict [(''other'', PDict [
       (''override'', PStr ''replace''),
       (''command'', PStr ''/bin/sleep 3600'')])]"

text \<open>The rendered example with the two keys of \<^verbatim>\<open>detection\<close> in the other order.\<close>

definition example_permuted :: pyval where
  "example_permuted = PDict [
     (''debug'', PBool False),
     (''customer'', PDict [
        (''name'', PStr ''acme''),
        (''cloud_name'', PStr ''k8s'')]),
     (''juju'', PDict [
        (''controller_endpoint'', PList [PStr ''10.0.0.1:17070'']),
        (''controller_cacert'', PStr ''CERT''),
        (''username'', PStr ''admin''),
        (''password'', PStr ''secret'')]),
     (''exporter'', PDict [
        (''collect_interval'', PInt 15),
        (''port'', PInt 5000)]),
     (''detection'', PDict [
        (''match_interfaces'', PStr ''.*''),
        (''virt_macs'', PList [PStr ''52:54:00'', PStr ''fa:16:3e''])])]"

text \<open>The options of the charm are scalars: \<^verbatim>\<open>None\<close>, booleans, integers and strings.\<close>

fun is_scalar :: "pyval \<Rightarrow> bool" where
  "is_scalar (PList xs) = False"
| "is_scalar (PDict kvs) = False"
| "is_scalar v = True"

definition scalar_options :: "ExporterConfig \<Rightarrow> bool" where
  "scalar_options c \<longleftrightarrow>
     is_scalar (debug c) \<and> is_scalar (customer c) \<and> is_scalar (cloud c) \<and>
     is_scalar (ca_cert c) \<and> is_scalar (user c) \<and> is_scalar (password c) \<and>
     is_scalar (interval c) \<and> is_scalar (port c) \<and> is_scalar (match_interfaces c)"


section \<open>Properties of the renderer and the validator\<close>

lemma split_str_nonempty: "split_str sep s \<noteq> []"
  by (induction s) (auto split: list.splits)

lemma join_split_str: "join_str [sep] (split_str sep s) = s"
proof (induction s)
  case Nil
  show ?case by simp
next
  case (Cons c cs)
  obtain w ws where sp: "split_str sep cs = w # ws"
    using split_str_nonempty [of sep cs] by (cases "split_str sep cs") auto
  show ?case
  proof (cases "c = sep")
    case True
    with Cons sp show ?thesis by simp
  next
    case False
    with Cons sp show ?thesis by (cases ws) auto
  qed
qed

lemma split_str_no_sep: "w \<in> set (split_str sep s) \<Longrightarrow> sep \<notin> set w"
proof (induction s arbitrary: w)
  case Nil
  then show ?case by simp
next
  case (Cons c cs)
  obtain v vs where sp: "split_str sep cs = v # vs"
    using split_str_nonempty [of sep cs] by (cases "split_str sep cs") auto
  from Cons.prems Cons.IH sp show ?case
    by (cases "c = sep") auto
qed

lemma split_str_single_empty: "split_str sep s = [[]] \<longleftrightarrow> s = []"
proof
  assume "split_str sep s = [[]]"
  then have "join_str [sep] (split_str sep s) = []" by simp
  then show "s = []" by (simp add: join_split_str)
qed simp

lemma missing_among_filter:
  "missing_among opts doc = Inr ms \<Longrightarrow>
   ms = filter (\<lambda>opt. \<exists>v. lookup_path doc (split_str CHR ''.'' opt) = Inr v \<and> \<not> truthy v) opts"
  by (induction opts arbitrary: ms) (auto split: sum.splits if_splits)

lemma missing_among_total:
  "(\<forall>opt \<in> set opts. \<exists>v. lookup_path doc (split_str CHR ''.'' opt) = Inr v) \<Longrightarrow>
   \<exists>ms. missing_among opts doc = Inr ms"
  by (induction opts) (auto split: sum.splits)

lemma render_lookups:
  "lookup_path (render c) [''customer'', ''name''] = Inr (customer c)"
  "lookup_path (render c) [''customer'', ''cloud_name''] = Inr (cloud c)"
  "lookup_path (render c) [''juju'', ''controller_endpoint''] = Inr (controller_endpoint c)"
  "lookup_path (render c) [''juju'', ''controller_cacert''] = Inr (ca_cert c)"
  "lookup_path (render c) [''juju'', ''username''] = Inr (user c)"
  "lookup_path (render c) [''juju'', ''password''] = Inr (password c)"
  "lookup_path (render c) [''exporter'', ''port''] = Inr (port c)"
  "lookup_path (render c) [''exporter'', ''collect_interval''] = Inr (interval c)"
  "lookup_path (render c) [''detection'', ''virt_macs''] = Inr (virt_macs c)"
  "lookup_path (render c) [''detection'', ''match_interfaces''] =
     Inr (if truthy (match_interfaces c) then match_interfaces c else PStr ''.*'')"
  by (simp_all add: render_def)

lemma py_int_raises: "py_int v = Inl x \<Longrightarrow> x = ValueError \<or> x = TypeError"
  by (cases v) (auto split: option.splits)

lemma render_exporter_int:
  "exporter_int (render c) ''port'' = py_int (port c)"
  "exporter_int (render c) ''collect_interval'' = py_int (interval c)"
  by (simp_all add: render_def exporter_int_def)

lemma validate_required_render:
  "\<exists>ms. validate_required_options (render c) = Inr ms \<and>
        ms = filter (\<lambda>opt. \<exists>v. lookup_path (render c) (split_str CHR ''.'' opt) = Inr v \<and> \<not> truthy v)
               REQUIRED_CONFIG"
proof -
  have "\<forall>opt \<in> set REQUIRED_CONFIG. \<exists>v. lookup_path (render c) (split_str CHR ''.'' opt) = Inr v"
    unfolding REQUIRED_CONFIG_def by (simp add: render_lookups del: lookup_path.simps)
  then obtain ms where ms: "missing_among REQUIRED_CONFIG (render c) = Inr ms"
    using missing_among_total by blast
  with missing_among_filter [OF ms] show ?thesis
    by (simp add: validate_required_options_def)
qed

lemma required_render_empty:
  "validate_required_options (render c) = Inr [] \<longleftrightarrow>
     truthy (customer c) \<and> truthy (cloud c) \<and> truthy (controller_endpoint c) \<and>
     truthy (ca_cert c) \<and> truthy (user c) \<and> truthy (password c) \<and> truthy (port c) \<and>
     truthy (interval c) \<and> truthy (virt_macs c)"
proof -
  obtain ms where ms: "validate_required_options (render c) = Inr ms"
    and f: "ms = filter (\<lambda>opt. \<exists>v. lookup_path (render c) (split_str CHR ''.'' opt) = Inr v \<and> \<not> truthy v)
               REQUIRED_CONFIG"
    using validate_required_render by blast
  have "ms = [] \<longleftrightarrow> (\<forall>opt \<in> set REQUIRED_CONFIG.
      \<not> (\<exists>v. lookup_path (render c) (split_str CHR ''.'' opt) = Inr v \<and> \<not> truthy v))"
    unfolding f by (simp add: filter_empty_conv)
  also have "\<dots> \<longleftrightarrow> truthy (customer c) \<and> truthy (cloud c) \<and> truthy (controller_endpoint c) \<and>
     truthy (ca_cert c) \<and> truthy (user c) \<and> truthy (password c) \<and> truthy (port c) \<and>
     truthy (interval c) \<and> truthy (virt_macs c)"
    unfolding REQUIRED_CONFIG_def by (simp add: render_lookups del: lookup_path.simps)
  finally show ?thesis using ms by simp
qed

lemma msg_missing_nonempty: "msg_missing ms \<noteq> []"
  by (simp add: msg_missing_def)

lemma py_int_truthy:
  "py_int v = Inr p \<Longrightarrow> p \<noteq> 0 \<Longrightarrow> truthy v"
  by (cases v) (auto simp: parse_int_def strip_int_space_def split: option.splits list.splits if_splits)

lemma validate_config_render_ok:
  "validate_config (render c) = Inr () \<longleftrightarrow>
     truthy (customer c) \<and> truthy (cloud c) \<and> truthy (controller_endpoint c) \<and>
     truthy (ca_cert c) \<and> truthy (user c) \<and> truthy (password c) \<and> truthy (virt_macs c) \<and>
     (\<exists>p. py_int (port c) = Inr p \<and> 0 < p \<and> p < 65535) \<and>
     (\<exists>n. py_int (interval c) = Inr n \<and> 1 \<le> n)"
  (is "?L \<longleftrightarrow> ?R")
proof -
  obtain ms where ms: "validate_required_options (render c) = Inr ms"
    using validate_required_render by blast
  have cp: "check_port (render c) = Inr [] \<longleftrightarrow> (\<exists>p. py_int (port c) = Inr p \<and> 0 < p \<and> p < 65535)"
    by (auto simp: check_port_def render_exporter_int msg_port_invalid_def msg_port_nan_def
          split: sum.splits exn.splits dest: py_int_raises)
  have ci: "check_interval (render c) = Inr [] \<longleftrightarrow> (\<exists>n. py_int (interval c) = Inr n \<and> 1 \<le> n)"
    by (auto simp: check_interval_def render_exporter_int msg_interval_nonpositive_def
          msg_interval_nan_def split: sum.splits exn.splits dest: py_int_raises)
  have "?L \<longleftrightarrow> ms = [] \<and> check_port (render c) = Inr [] \<and> check_interval (render c) = Inr []"
    using ms
    by (auto simp: validate_config_def validate_option_values_def msg_missing_nonempty
          split: sum.splits)
  also have "\<dots> \<longleftrightarrow> ?R"
    using required_render_empty [of c] ms cp ci
    by (auto dest: py_int_truthy)
  finally show ?thesis .
qed

lemma validate_config_render_cases:
  assumes "validate_required_options (render c) = Inr ms"
    and "check_port (render c) = Inr e1"
    and "check_interval (render c) = Inr e2"
  shows "validate_config (render c) =
    (if ms = [] \<and> e1 = [] \<and> e2 = [] then Inr ()
     else Inl (ExporterConfigError ((if ms \<noteq> [] then msg_missing ms else []) @ e1 @ e2)))"
  using assms
  by (simp add: validate_config_def validate_option_values_def msg_missing_nonempty)

lemma missing_port_only:
  assumes "truthy (customer c)" "truthy (cloud c)" "truthy (controller_endpoint c)"
    "truthy (ca_cert c)" "truthy (user c)" "truthy (password c)" "truthy (interval c)"
    "truthy (virt_macs c)"
  shows "validate_required_options (render c) = Inr (if truthy (port c) then [] else [''exporter.port''])"
proof -
  obtain ms where ms: "validate_required_options (render c) = Inr ms"
    and f: "ms = filter (\<lambda>opt. \<exists>v. lookup_path (render c) (split_str CHR ''.'' opt) = Inr v \<and> \<not> truthy v)
               REQUIRED_CONFIG"
    using validate_required_render by blast
  have "ms = (if truthy (port c) then [] else [''exporter.port''])"
    unfolding f REQUIRED_CONFIG_def using assms
    by (simp add: render_lookups del: lookup_path.simps)
  with ms show ?thesis by simp
qed

lemma msg_port_distinct: "msg_port_invalid p \<noteq> msg_port_nan"
  by (simp add: msg_port_invalid_def msg_port_nan_def)

text \<open>
  Claim C7. Take a configuration that passes validation with the port 8080, and put any
  value \<open>v\<close> in place of the port. Validation accepts the document exactly when \<^verbatim>\<open>int(v)\<close> is
  a number strictly between 0 and 65535. A value that is not a number is answered with the
  message that the option must be a number, a number out of range with the message that it
  is not a valid port number, and the two messages differ.
\<close>

theorem port_accepted_iff_in_range:
  assumes ok: "validate_config (render (c\<lparr>port := PInt 8080\<rparr>)) = Inr ()"
  shows "(validate_config (render (c\<lparr>port := v\<rparr>)) = Inr () \<longleftrightarrow>
            (\<exists>p. py_int v = Inr p \<and> 0 < p \<and> p < 65535))
    \<and> (py_int v = Inl ValueError \<longrightarrow>
          validate_config (render (c\<lparr>port := v\<rparr>)) =
            Inl (ExporterConfigError
              ((if truthy v then [] else msg_missing [''exporter.port'']) @ msg_port_nan)))
    \<and> (\<forall>p. py_int v = Inr p \<and> \<not> (0 < p \<and> p < 65535) \<longrightarrow>
          validate_config (render (c\<lparr>port := v\<rparr>)) =
            Inl (ExporterConfigError
              ((if truthy v then [] else msg_missing [''exporter.port'']) @ msg_port_invalid p)))
    \<and> (\<forall>p. msg_port_invalid p \<noteq> msg_port_nan)"
proof -
  let ?c = "c\<lparr>port := v\<rparr>"
  from ok have others: "truthy (customer c)" "truthy (cloud c)" "truthy (controller_endpoint c)"
    "truthy (ca_cert c)" "truthy (user c)" "truthy (password c)" "truthy (virt_macs c)"
    and iv: "\<exists>n. py_int (interval c) = Inr n \<and> 1 \<le> n"
    by (simp_all add: validate_config_render_ok controller_endpoint_def virt_macs_def)
  from iv have tiv: "truthy (interval c)" by (auto dest: py_int_truthy)
  have ms: "validate_required_options (render ?c) =
      Inr (if truthy v then [] else [''exporter.port''])"
    using missing_port_only [of ?c] others tiv
    by (simp add: controller_endpoint_def virt_macs_def)
  have ci: "check_interval (render ?c) = Inr []"
    using iv by (auto simp: check_interval_def render_exporter_int)
  have acc: "validate_config (render ?c) = Inr () \<longleftrightarrow>
      (\<exists>p. py_int v = Inr p \<and> 0 < p \<and> p < 65535)"
    using others iv
    by (simp add: validate_config_render_ok controller_endpoint_def virt_macs_def)
  have nan: "validate_config (render ?c) =
      Inl (ExporterConfigError ((if truthy v then [] else msg_missing [''exporter.port'']) @ msg_port_nan))"
    if "py_int v = Inl ValueError"
  proof -
    have "check_port (render ?c) = Inr msg_port_nan"
      using that by (simp add: check_port_def render_exporter_int)
    from validate_config_render_cases [OF ms this ci] show ?thesis
      by (simp add: msg_port_nan_def)
  qed
  have rng: "validate_config (render ?c) =
      Inl (ExporterConfigError ((if truthy v then [] else msg_missing [''exporter.port'']) @ msg_port_invalid p))"
    if "py_int v = Inr p" "\<not> (0 < p \<and> p < 65535)" for p
  proof -
    have "check_port (render ?c) = Inr (msg_port_invalid p)"
      using that by (simp add: check_port_def render_exporter_int)
    from validate_config_render_cases [OF ms this ci] show ?thesis
      by (simp add: msg_port_invalid_def)
  qed
  show ?thesis using acc nan rng msg_port_distinct by blast
qed

text \<open>
  Claim C7 at the example: 8080 and 1 are accepted, 0 and 65535 are rejected, and \<^verbatim>\<open>"abc"\<close>
  is answered with the message for a value that is not a number.
\<close>

theorem port_accepted_iff_in_range_witness:
  "validate_config (render (example_config\<lparr>port := PInt 8080\<rparr>)) = Inr ()
   \<and> validate_config (render (example_config\<lparr>port := PInt 0\<rparr>)) \<noteq> Inr ()
   \<and> validate_config (render (example_config\<lparr>port := PInt 65535\<rparr>)) \<noteq> Inr ()
   \<and> validate_config (render (example_config\<lparr>port := PInt 1\<rparr>)) = Inr ()
   \<and> validate_config (render (example_config\<lparr>port := PStr ''abc''\<rparr>)) =
         Inl (ExporterConfigError msg_port_nan)"
proof -
  have h: "validate_config (render (example_config\<lparr>port := PInt 8080\<rparr>)) = Inr ()"
    by (simp add: validate_config_render_ok example_config_def controller_endpoint_def
          virt_macs_def)
  have abc: "py_int (PStr ''abc'') = Inl ValueError"
    by (simp add: parse_int_def strip_int_space_def is_int_space_def is_digit_def)
  show ?thesis
    using h port_accepted_iff_in_range [OF h, of "PInt 0"]
      port_accepted_iff_in_range [OF h, of "PInt 65535"]
      port_accepted_iff_in_range [OF h, of "PInt 1"]
      port_accepted_iff_in_range [OF h, of "PStr ''abc''"] abc
    by simp
qed




text \<open>
  Claim C8 says that validation raises \<^verbatim>\<open>ExporterConfigError\<close> whenever a violation exists.
  At a document whose port is \<^verbatim>\<open>None\<close>, as \<^verbatim>\<open>render\<close> writes an option that is not set, the
  check of the required options finds the port missing, but \<^verbatim>\<open>int(None)\<close> raises a
  \<^verbatim>\<open>TypeError\<close> that neither \<^verbatim>\<open>except\<close> clause handles: the violation found is lost and
  \<^verbatim>\<open>validate_config\<close> ends with \<^verbatim>\<open>TypeError\<close>. The same happens when the interval is
  \<^verbatim>\<open>None\<close>.
\<close>

theorem validate_config_type_error_on_unset_port:
  "validate_required_options (render (example_config\<lparr>port := PNone\<rparr>)) = Inr [''exporter.port'']
   \<and> validate_config (render (example_config\<lparr>port := PNone\<rparr>)) = Inl TypeError
   \<and> validate_required_options (render (example_config\<lparr>interval := PNone\<rparr>))
       = Inr [''exporter.collect_interval'']
   \<and> validate_config (render (example_config\<lparr>interval := PNone\<rparr>)) = Inl TypeError"
proof -
  let ?c = "example_config\<lparr>port := PNone\<rparr>"
  let ?d = "example_config\<lparr>interval := PNone\<rparr>"
  have ms: "validate_required_options (render ?c) = Inr [''exporter.port'']"
    using missing_port_only [of ?c]
    by (simp add: example_config_def controller_endpoint_def virt_macs_def)
  have "check_port (render ?c) = Inl TypeError"
    by (simp add: check_port_def render_exporter_int)
  then have vc: "validate_config (render ?c) = Inl TypeError"
    using ms by (simp add: validate_config_def validate_option_values_def)
  obtain ns where ns: "validate_required_options (render ?d) = Inr ns"
    and f: "ns = filter (\<lambda>opt. \<exists>v. lookup_path (render ?d) (split_str CHR ''.'' opt) = Inr v \<and> \<not> truthy v)
               REQUIRED_CONFIG"
    using validate_required_render by blast
  have "ns = [''exporter.collect_interval'']"
    unfolding f REQUIRED_CONFIG_def
    by (simp add: render_lookups example_config_def controller_endpoint_def virt_macs_def
          del: lookup_path.simps)
  with ns have ms': "validate_required_options (render ?d) = Inr [''exporter.collect_interval'']"
    by simp
  have "check_port (render ?d) = Inr []"
    by (simp add: check_port_def render_exporter_int example_config_def)
  moreover have "check_interval (render ?d) = Inl TypeError"
    by (simp add: check_interval_def render_exporter_int)
  ultimately have vd: "validate_config (render ?d) = Inl TypeError"
    using ms' by (simp add: validate_config_def validate_option_values_def)
  from ms vc ms' vd show ?thesis by simp
qed

text \<open>
  Where the conversions do not raise \<^verbatim>\<open>TypeError\<close>, the violations are collected: a document
  without customer name and with the port \<^verbatim>\<open>"99999"\<close> is refused with both lines.
\<close>

lemma validation_accumulates_example:
  "validate_config (render (example_config\<lparr>customer := PNone, port := PStr ''99999''\<rparr>)) =
     Inl (ExporterConfigError (msg_missing [''customer.name''] @ msg_port_invalid 99999))"
proof -
  let ?c = "example_config\<lparr>customer := PNone, port := PStr ''99999''\<rparr>"
  obtain ms where ms: "validate_required_options (render ?c) = Inr ms"
    and f: "ms = filter (\<lambda>opt. \<exists>v. lookup_path (render ?c) (split_str CHR ''.'' opt) = Inr v \<and> \<not> truthy v)
               REQUIRED_CONFIG"
    using validate_required_render by blast
  have "ms = [''customer.name'']"
    unfolding f REQUIRED_CONFIG_def
    by (simp add: render_lookups example_config_def controller_endpoint_def virt_macs_def
          del: lookup_path.simps)
  with ms have ms': "validate_required_options (render ?c) = Inr [''customer.name'']" by simp
  have p: "py_int (PStr ''99999'') = Inr 99999"
    by (simp add: parse_int_def strip_int_space_def is_int_space_def is_digit_def digit_val_def)
  have cp: "check_port (render ?c) = Inr (msg_port_invalid 99999)"
    using p by (simp add: check_port_def render_exporter_int)
  have ci: "check_interval (render ?c) = Inr []"
    by (simp add: check_interval_def render_exporter_int example_config_def)
  from validate_config_render_cases [OF ms' cp ci] show ?thesis by simp
qed

text \<open>
  Claim C2 says that each element of a comma list is trimmed and that empty input gives an
  empty list. The controller string \<^verbatim>\<open>"a, b"\<close> is rendered as \<^verbatim>\<open>['a', ' b']\<close>, where the
  specification's derivation gives \<^verbatim>\<open>['a', 'b']\<close>; the empty controller string is rendered as
  the empty string, not as the empty list.
\<close>

theorem comma_lists_trimmed_counterexample:
  "lookup_path (render (example_config\<lparr>controller := Some ''a, b''\<rparr>)) [''juju'', ''controller_endpoint'']
     = Inr (PList [PStr ''a'', PStr '' b''])
   \<and> spec_comma_list (Some ''a, b'') = PList [PStr ''a'', PStr ''b'']
   \<and> lookup_path (render (example_config\<lparr>controller := Some []\<rparr>)) [''juju'', ''controller_endpoint'']
     = Inr (PStr [])
   \<and> spec_comma_list (Some []) = PList []"
  by (simp add: render_def controller_endpoint_def example_config_def spec_comma_list_def
        strip_str_def is_space_def)

text \<open>
  Claim C2, amended. The rendered document holds \<^verbatim>\<open>controller_endpoint\<close> and
  \<^verbatim>\<open>virt_macs\<close>. An absent or empty controller string gives the empty string, an absent
  or empty prefix string the empty list. Any other string is cut at its commas and nowhere
  else, nothing being trimmed: joining the elements with commas gives the string back, and
  no element holds a comma. Neither field is ever the list of one empty string.
\<close>

theorem comma_lists_split_untrimmed:
  "lookup_path (render c) [''juju'', ''controller_endpoint''] = Inr (controller_endpoint c)
   \<and> lookup_path (render c) [''detection'', ''virt_macs''] = Inr (virt_macs c)
   \<and> (controller c = None \<or> controller c = Some [] \<longrightarrow> controller_endpoint c = PStr [])
   \<and> (prefixes c = None \<or> prefixes c = Some [] \<longrightarrow> virt_macs c = PList [])
   \<and> (\<forall>s. controller c = Some s \<and> s \<noteq> [] \<longrightarrow>
         (\<exists>ws. controller_endpoint c = PList (map PStr ws) \<and> join_str '','' ws = s
               \<and> (\<forall>w \<in> set ws. CHR '','' \<notin> set w)))
   \<and> (\<forall>s. prefixes c = Some s \<and> s \<noteq> [] \<longrightarrow>
         (\<exists>ws. virt_macs c = PList (map PStr ws) \<and> join_str '','' ws = s
               \<and> (\<forall>w \<in> set ws. CHR '','' \<notin> set w)))
   \<and> controller_endpoint c \<noteq> PList [PStr []]
   \<and> virt_macs c \<noteq> PList [PStr []]"
proof -
  have sp: "\<exists>ws. split_str CHR '','' s = ws \<and> join_str '','' ws = s
               \<and> (\<forall>w \<in> set ws. CHR '','' \<notin> set w)" for s
    using join_split_str [of "CHR '',''" s] split_str_no_sep [of _ "CHR '',''" s] by auto
  have ce: "\<exists>ws. controller_endpoint c = PList (map PStr ws) \<and> join_str '','' ws = s
               \<and> (\<forall>w \<in> set ws. CHR '','' \<notin> set w)"
    if "controller c = Some s" "s \<noteq> []" for s
    using that sp [of s]
    by (auto simp: controller_endpoint_def intro!: exI [of _ "split_str CHR '','' s"])
  have vm: "\<exists>ws. virt_macs c = PList (map PStr ws) \<and> join_str '','' ws = s
               \<and> (\<forall>w \<in> set ws. CHR '','' \<notin> set w)"
    if "prefixes c = Some s" "s \<noteq> []" for s
    using that sp [of s]
    by (auto simp: virt_macs_def intro!: exI [of _ "split_str CHR '','' s"])
  have single: "map PStr (split_str CHR '','' s) = [PStr []] \<longleftrightarrow> s = []" for s
  proof -
    have "map PStr ws = [PStr []] \<longleftrightarrow> ws = [[]]" for ws
      by (cases ws) auto
    then show ?thesis by (simp add: split_str_single_empty)
  qed
  have n1: "controller_endpoint c \<noteq> PList [PStr []]"
    by (auto simp: controller_endpoint_def single split: option.splits)
  have n2: "virt_macs c \<noteq> PList [PStr []]"
    by (auto simp: virt_macs_def single split: option.splits)
  have e1: "controller c = None \<or> controller c = Some [] \<longrightarrow> controller_endpoint c = PStr []"
    by (auto simp: controller_endpoint_def)
  have e2: "prefixes c = None \<or> prefixes c = Some [] \<longrightarrow> virt_macs c = PList []"
    by (auto simp: virt_macs_def)
  show ?thesis
    using ce vm n1 n2 e1 e2 by (simp add: render_lookups del: lookup_path.simps)
qed

text \<open>
  Claim C2, amended, at the example.
\<close>

theorem comma_lists_split_untrimmed_witness:
  "controller_endpoint (example_config\<lparr>controller := Some ''a, b''\<rparr>) = PList [PStr ''a'', PStr '' b'']
   \<and> join_str '','' [''a'', '' b''] = ''a, b''
   \<and> virt_macs example_config = PList [PStr ''52:54:00'', PStr ''fa:16:3e'']
   \<and> controller_endpoint (example_config\<lparr>controller := None\<rparr>) = PStr []
   \<and> virt_macs (example_config\<lparr>prefixes := Some []\<rparr>) = PList []"
  using comma_lists_split_untrimmed [of "example_config\<lparr>controller := Some ''a, b''\<rparr>"]
    comma_lists_split_untrimmed [of "example_config\<lparr>controller := None\<rparr>"]
    comma_lists_split_untrimmed [of "example_config\<lparr>prefixes := Some []\<rparr>"]
  by (simp add: example_config_def controller_endpoint_def virt_macs_def)


section \<open>Properties of the reconciliation pass\<close>

text \<open>
  Each lemma of this section follows one path through \<^verbatim>\<open>_configure\<close> and says what the pass
  leaves behind: the exception that escapes, if any, and the charm with its trace.
\<close>

lemmas charm_steps = log_def set_status_def emit_def Let_def

lemma restart_pje_hash [simp]: "current_config_hash (restart_pje e s) = current_config_hash s"
  by (simp add: restart_pje_def charm_steps split: option.splits)

lemma restart_pje_failed:
  assumes "add_layer_raises e = Some x \<or> (add_layer_raises e = None \<and> restart_raises e = Some x)"
  shows "unit_status (restart_pje e s) = unit_status s"
  using assms by (auto simp: restart_pje_def charm_steps)

lemma restart_pje_ok:
  assumes "add_layer_raises e = None" "restart_raises e = None"
  shows "restart_pje e s =
    s\<lparr>unit_status := ActiveStatus,
      plan_services := combine_services (plan_services s) (layer_services build_layer),
      trace := trace s @ [AddLayer name build_layer, Log INFO msg_layer_added,
                          Restart name, Log INFO msg_restarted, SetStatus ActiveStatus]\<rparr>"
  using assms by (simp add: restart_pje_def charm_steps)

lemma configure_rest_ok:
  assumes "scrape_target_raises e = None" "open_ports_raises e = None"
  shows "configure_rest e r s =
    (let restart = (r \<or> \<not> struct_eq (plan_services s) (layer_services build_layer));
         s3 = s\<lparr>trace := trace s @ [ExposeScrapeTarget, ReconfigureOpenPorts,
                                     Log INFO (''restart: '' @ py_format_bool restart)]\<rparr>
     in if restart then (None, restart_pje e s3)
        else if unit_status s \<noteq> ActiveStatus then (None, set_status ActiveStatus s3)
        else (None, s3))"
  using assms
  by (auto simp: configure_rest_def reconfigure_scrape_target_def reconfigure_open_ports_def
        charm_steps Let_def)

text \<open>The charm after the first lines of a pass, up to the comparison of the hashes.\<close>

lemma configure_unchanged_hash:
  assumes "can_connect e" "generate_exporter_config e = Inr doc"
    and "current_config_hash s = Some (fingerprint doc)"
  shows "configure e s =
    configure_rest e False
      (s\<lparr>unit_status := MaintenanceStatus msg_processing,
         trace := trace s @ [Log INFO msg_processing, SetStatus (MaintenanceStatus msg_processing),
           Log INFO (''exporter_config_hash: '' @ fingerprint doc),
           Log INFO (''current_config_hash: '' @ fingerprint doc)]\<rparr>)"
  using assms by (simp add: configure_def charm_steps py_format_opt_def)

lemma configure_changed_hash:
  assumes "can_connect e" "generate_exporter_config e = Inr doc"
    and "current_config_hash s \<noteq> Some (fingerprint doc)"
  shows "configure e s =
    (case try_apply e doc (fingerprint doc)
       (s\<lparr>unit_status := MaintenanceStatus msg_processing,
         trace := trace s @ [Log INFO msg_processing, SetStatus (MaintenanceStatus msg_processing),
           Log INFO (''exporter_config_hash: '' @ fingerprint doc),
           Log INFO (''current_config_hash: '' @ py_format_opt (current_config_hash s)),
           Log INFO ''inside hash compare'']\<rparr>) of
       (None, s3) \<Rightarrow> configure_rest e True s3
     | (Some (ExporterConfigError m), s3) \<Rightarrow>
         (None, set_status (BlockedStatus msg_blocked) (log ERROR (to_charm_options m) s3))
     | (Some ConnectionError, s3) \<Rightarrow> configure_rest e True (log ERROR msg_push_refused s3)
     | (Some x, s3) \<Rightarrow> (Some x, s3))"
  using assms by (auto simp: configure_def charm_steps Let_def)

lemma try_apply_invalid:
  assumes "validate_config doc = Inl x"
  shows "try_apply e doc h s =
    (Some x, s\<lparr>trace := trace s @ [Log INFO ''Updating exporter service configuration.'']\<rparr>)"
  using assms by (simp add: try_apply_def apply_config_def charm_steps)

lemma try_apply_valid:
  assumes "validate_config doc = Inr ()"
  shows "try_apply e doc h s =
    (case push_raises e of
       Some x \<Rightarrow> (Some x, s\<lparr>trace := trace s @ [
           Log INFO ''Updating exporter service configuration.'',
           Log INFO ''Exporter configuration updated.'',
           Log INFO (''config_data: '' @ yaml_safe_dump e doc)]\<rparr>)
     | None \<Rightarrow> (None, s\<lparr>current_config_hash := Some h,
          trace := trace s @ [
           Log INFO ''Updating exporter service configuration.'',
           Log INFO ''Exporter configuration updated.'',
           Log INFO (''config_data: '' @ yaml_safe_dump e doc),
           Push OCI_CONFIG_PATH (yaml_safe_dump e doc),
           Log INFO (''push: '' @ OCI_CONFIG_PATH)]\<rparr>))"
  using assms by (simp add: try_apply_def apply_config_def charm_steps split: option.splits)

text \<open>
  Claim C1, amended. When the supervisor is reachable, the fingerprint of the rendered
  document differs from the stored one and validation raises \<^verbatim>\<open>ExporterConfigError\<close> with the
  text \<open>m\<close>, the pass returns normally; the status is \<open>Blocked\<close> with the fixed reason
  \<^verbatim>\<open>Invalid configuration. Please see logs.\<close>; the text \<open>m\<close>, with the option paths
  of \<^verbatim>\<open>OCI_CONFIG_MAP\<close> replaced by the names of the charm's options, is logged as an error;
  the stored fingerprint and the plan are as before, and the trace holds no push, no
  layer and no restart.
\<close>

theorem invalid_configuration_blocks:
  assumes "can_connect e"
    and "generate_exporter_config e = Inr doc"
    and "current_config_hash s \<noteq> Some (fingerprint doc)"
    and "validate_config doc = Inl (ExporterConfigError m)"
  shows "configure e s =
    (None, s\<lparr>unit_status := BlockedStatus ''Invalid configuration. Please see logs.'',
       trace := trace s @ [
         Log INFO msg_processing,
         SetStatus (MaintenanceStatus msg_processing),
         Log INFO (''exporter_config_hash: '' @ fingerprint doc),
         Log INFO (''current_config_hash: '' @ py_format_opt (current_config_hash s)),
         Log INFO ''inside hash compare'',
         Log INFO ''Updating exporter service configuration.'',
         Log ERROR (to_charm_options m),
         SetStatus (BlockedStatus ''Invalid configuration. Please see logs.'')]\<rparr>)"
  using assms
  by (simp add: configure_changed_hash try_apply_invalid log_def set_status_def msg_blocked_def)

text \<open>
  The example with two options changed, and the translation of its violation text.
\<close>

lemma example_generate:
  "generate_exporter_config (example_env\<lparr>config := example_options\<lparr>opt_customer := cu, opt_scrape_port := po\<rparr>\<rparr>)
     = Inr (render (example_config\<lparr>customer := cu, port := po\<rparr>))"
  by (simp add: generate_exporter_config_def example_env_def example_options_def example_config_def)

lemma to_charm_options_example:
  "to_charm_options (msg_missing [''customer.name''] @ msg_port_invalid 99999) =
     ''Following config options are missing: customer'' @ linesep
       @ ''Port 99999 is not valid port number.'' @ linesep"
  by (simp add: to_charm_options_def OCI_CONFIG_MAP_def replace_str_def msg_missing_def
        msg_port_invalid_def linesep_def str_of_int_def str_of_nat.simps digit_char_def)

text \<open>
  Claim C1 says that the violation text is the reason shown with the status. With the
  customer missing and the port \<^verbatim>\<open>"99999"\<close> the reason of the \<open>Blocked\<close> status is the fixed
  sentence, which is not the translated violation text.
\<close>

theorem blocked_reason_counterexample:
  "validate_config (render (example_config\<lparr>customer := PNone, port := PStr ''99999''\<rparr>)) =
     Inl (ExporterConfigError (msg_missing [''customer.name''] @ msg_port_invalid 99999))
   \<and> unit_status (snd (configure
         (example_env\<lparr>config := example_options\<lparr>opt_customer := PNone,
                                                  opt_scrape_port := PStr ''99999''\<rparr>\<rparr>)
         (init UnknownStatus (PDict []))))
       = BlockedStatus ''Invalid configuration. Please see logs.''
   \<and> BlockedStatus ''Invalid configuration. Please see logs.''
       \<noteq> BlockedStatus (to_charm_options (msg_missing [''customer.name''] @ msg_port_invalid 99999))"
proof -
  let ?e = "example_env\<lparr>config := example_options\<lparr>opt_customer := PNone,
                                                  opt_scrape_port := PStr ''99999''\<rparr>\<rparr>"
  let ?doc = "render (example_config\<lparr>customer := PNone, port := PStr ''99999''\<rparr>)"
  have c: "can_connect ?e" by (simp add: example_env_def)
  have h: "current_config_hash (init UnknownStatus (PDict [])) \<noteq> Some (fingerprint ?doc)"
    by (simp add: init_def)
  have "unit_status (snd (configure ?e (init UnknownStatus (PDict []))))
       = BlockedStatus ''Invalid configuration. Please see logs.''"
    using c example_generate h validation_accumulates_example
    by (simp add: configure_changed_hash try_apply_invalid log_def set_status_def msg_blocked_def)
  then show ?thesis
    using validation_accumulates_example
    by (simp add: to_charm_options_example)
qed

text \<open>
  Claim C1, amended, at that example, started from an \<open>Active\<close> unit: the whole result of
  the pass.
\<close>

theorem invalid_configuration_blocks_witness:
  "can_connect (example_env\<lparr>config := example_options\<lparr>opt_customer := PNone,
                                                  opt_scrape_port := PStr ''99999''\<rparr>\<rparr>)
   \<and> configure
       (example_env\<lparr>config := example_options\<lparr>opt_customer := PNone,
                                                opt_scrape_port := PStr ''99999''\<rparr>\<rparr>)
       (init ActiveStatus (PDict []))
     = (None, \<lparr>current_config_hash = None,
          unit_status = BlockedStatus ''Invalid configuration. Please see logs.'',
          plan_services = PDict [],
          trace = [
            Log INFO ''Processing new charm configuration.'',
            SetStatus (MaintenanceStatus ''Processing new charm configuration.''),
            Log INFO (''exporter_config_hash: ''
              @ fingerprint (render (example_config\<lparr>customer := PNone, port := PStr ''99999''\<rparr>))),
            Log INFO ''current_config_hash: None'',
            Log INFO ''inside hash compare'',
            Log INFO ''Updating exporter service configuration.'',
            Log ERROR (''Following config options are missing: customer'' @ linesep
                       @ ''Port 99999 is not valid port number.'' @ linesep),
            SetStatus (BlockedStatus ''Invalid configuration. Please see logs.'')]\<rparr>)"
proof -
  let ?e = "example_env\<lparr>config := example_options\<lparr>opt_customer := PNone,
                                                  opt_scrape_port := PStr ''99999''\<rparr>\<rparr>"
  let ?doc = "render (example_config\<lparr>customer := PNone, port := PStr ''99999''\<rparr>)"
  have c: "can_connect ?e" by (simp add: example_env_def)
  have h: "current_config_hash (init ActiveStatus (PDict [])) \<noteq> Some (fingerprint ?doc)"
    by (simp add: init_def)
  show ?thesis
    using c invalid_configuration_blocks [OF c example_generate h validation_accumulates_example]
    by (simp add: to_charm_options_example init_def msg_processing_def py_format_opt_def)
qed

text \<open>
  The example, whatever Pebble answers.
\<close>

lemma example_generate0:
  "generate_exporter_config (example_env\<lparr>push_raises := pr, add_layer_raises := al, restart_raises := rr\<rparr>)
     = Inr (render example_config)"
  by (simp add: generate_exporter_config_def example_env_def example_options_def example_config_def)

lemma example_config_valid: "validate_config (render example_config) = Inr ()"
  by (simp add: validate_config_render_ok example_config_def controller_endpoint_def virt_macs_def)

text \<open>
  Claim C5 says that a pass goes on to the comparison of the plan and to the restart when
  writing the file fails. When \<^verbatim>\<open>push\<close> raises an exception that is not a
  \<^verbatim>\<open>ConnectionError\<close>, no \<^verbatim>\<open>except\<close> clause of \<^verbatim>\<open>_configure\<close> handles it: the exception
  leaves the method, and the trace ends with the log line before the push.
\<close>

theorem push_failure_counterexample:
  "push_raises (example_env\<lparr>push_raises := Some (OtherError ''PathError''),
                             add_layer_raises := None, restart_raises := None\<rparr>)
     = Some (OtherError ''PathError'')
   \<and> configure
       (example_env\<lparr>push_raises := Some (OtherError ''PathError''),
                      add_layer_raises := None, restart_raises := None\<rparr>)
       (init UnknownStatus (PDict []))
     = (Some (OtherError ''PathError''),
        \<lparr>current_config_hash = None,
         unit_status = MaintenanceStatus ''Processing new charm configuration.'',
         plan_services = PDict [],
         trace = [
           Log INFO ''Processing new charm configuration.'',
           SetStatus (MaintenanceStatus ''Processing new charm configuration.''),
           Log INFO (''exporter_config_hash: '' @ fingerprint (render example_config)),
           Log INFO ''current_config_hash: None'',
           Log INFO ''inside hash compare'',
           Log INFO ''Updating exporter service configuration.'',
           Log INFO ''Exporter configuration updated.'',
           Log INFO ''config_data: debug: false'']\<rparr>)"
proof -
  let ?e = "example_env\<lparr>push_raises := Some (OtherError ''PathError''),
                        add_layer_raises := None, restart_raises := None\<rparr>"
  have c: "can_connect ?e" by (simp add: example_env_def)
  have h: "current_config_hash (init UnknownStatus (PDict [])) \<noteq> Some (fingerprint (render example_config))"
    by (simp add: init_def)
  have "configure ?e (init UnknownStatus (PDict [])) =
      (Some (OtherError ''PathError''),
       (init UnknownStatus (PDict []))\<lparr>unit_status := MaintenanceStatus msg_processing,
         trace := [
           Log INFO msg_processing,
           SetStatus (MaintenanceStatus msg_processing),
           Log INFO (''exporter_config_hash: '' @ fingerprint (render example_config)),
           Log INFO ''current_config_hash: None'',
           Log INFO ''inside hash compare'',
           Log INFO ''Updating exporter service configuration.'',
           Log INFO ''Exporter configuration updated.'',
           Log INFO (''config_data: '' @ yaml_safe_dump ?e (render example_config))]\<rparr>)"
    unfolding configure_changed_hash [OF c example_generate0 h]
      try_apply_valid [OF example_config_valid]
    by (simp add: init_def py_format_opt_def)
  then show ?thesis
    by (simp add: init_def msg_processing_def example_env_def)
qed

text \<open>
  Claim C5, amended. When the fingerprint differs, the document is valid and \<^verbatim>\<open>push\<close>
  raises \<^verbatim>\<open>ConnectionError\<close>, and neither the scrape target nor the ports raise, the pass
  returns normally: the refusal is logged as an error, the stored fingerprint is as before,
  the restart flag is set, \<^verbatim>\<open>restart_pje\<close> runs, and the status is not \<open>Blocked\<close>.
\<close>

theorem push_connection_error_continues:
  assumes "can_connect e"
    and "generate_exporter_config e = Inr doc"
    and "current_config_hash s \<noteq> Some (fingerprint doc)"
    and "validate_config doc = Inr ()"
    and "push_raises e = Some ConnectionError"
    and "scrape_target_raises e = None"
    and "open_ports_raises e = None"
  shows "configure e s =
      (None, restart_pje e
        (s\<lparr>unit_status := MaintenanceStatus msg_processing,
           trace := trace s @ [
             Log INFO msg_processing,
             SetStatus (MaintenanceStatus msg_processing),
             Log INFO (''exporter_config_hash: '' @ fingerprint doc),
             Log INFO (''current_config_hash: '' @ py_format_opt (current_config_hash s)),
             Log INFO ''inside hash compare'',
             Log INFO ''Updating exporter service configuration.'',
             Log INFO ''Exporter configuration updated.'',
             Log INFO (''config_data: '' @ yaml_safe_dump e doc),
             Log ERROR msg_push_refused,
             ExposeScrapeTarget,
             ReconfigureOpenPorts,
             Log INFO ''restart: True'']\<rparr>))
    \<and> current_config_hash (snd (configure e s)) = current_config_hash s
    \<and> (\<forall>m. unit_status (snd (configure e s)) \<noteq> BlockedStatus m)"
proof -
  have eq: "configure e s =
      (None, restart_pje e
        (s\<lparr>unit_status := MaintenanceStatus msg_processing,
           trace := trace s @ [
             Log INFO msg_processing,
             SetStatus (MaintenanceStatus msg_processing),
             Log INFO (''exporter_config_hash: '' @ fingerprint doc),
             Log INFO (''current_config_hash: '' @ py_format_opt (current_config_hash s)),
             Log INFO ''inside hash compare'',
             Log INFO ''Updating exporter service configuration.'',
             Log INFO ''Exporter configuration updated.'',
             Log INFO (''config_data: '' @ yaml_safe_dump e doc),
             Log ERROR msg_push_refused,
             ExposeScrapeTarget,
             ReconfigureOpenPorts,
             Log INFO ''restart: True'']\<rparr>))"
    using assms
    by (simp add: configure_changed_hash try_apply_valid configure_rest_ok log_def
          py_format_bool_def)
  have st: "unit_status (restart_pje e t) = ActiveStatus \<or> unit_status (restart_pje e t) = unit_status t"
    for t
    by (auto simp: restart_pje_def charm_steps split: option.splits)
  show ?thesis
    unfolding eq using st [of "s\<lparr>unit_status := MaintenanceStatus msg_processing,
           trace := trace s @ [
             Log INFO msg_processing,
             SetStatus (MaintenanceStatus msg_processing),
             Log INFO (''exporter_config_hash: '' @ fingerprint doc),
             Log INFO (''current_config_hash: '' @ py_format_opt (current_config_hash s)),
             Log INFO ''inside hash compare'',
             Log INFO ''Updating exporter service configuration.'',
             Log INFO ''Exporter configuration updated.'',
             Log INFO (''config_data: '' @ yaml_safe_dump e doc),
             Log ERROR msg_push_refused,
             ExposeScrapeTarget,
             ReconfigureOpenPorts,
             Log INFO ''restart: True'']\<rparr>"]
    by auto
qed

text \<open>
  Claim C5, amended, at the example with a \<^verbatim>\<open>ConnectionError\<close> from \<^verbatim>\<open>push\<close>.
\<close>

theorem push_connection_error_continues_witness:
  "can_connect (example_env\<lparr>push_raises := Some ConnectionError,
                             add_layer_raises := None, restart_raises := None\<rparr>)
   \<and> validate_config (render example_config) = Inr ()
   \<and> current_config_hash (snd (configure
         (example_env\<lparr>push_raises := Some ConnectionError,
                        add_layer_raises := None, restart_raises := None\<rparr>)
         (init UnknownStatus (PDict [])))) = None
   \<and> fst (configure
         (example_env\<lparr>push_raises := Some ConnectionError,
                        add_layer_raises := None, restart_raises := None\<rparr>)
         (init UnknownStatus (PDict []))) = None
   \<and> set (trace (snd (configure
         (example_env\<lparr>push_raises := Some ConnectionError,
                        add_layer_raises := None, restart_raises := None\<rparr>)
         (init UnknownStatus (PDict []))))) \<supseteq>
       {Log ERROR msg_push_refused, Log INFO ''restart: True'', Restart name}"
proof -
  let ?e = "example_env\<lparr>push_raises := Some ConnectionError,
                        add_layer_raises := None, restart_raises := None\<rparr>"
  have c: "can_connect ?e" by (simp add: example_env_def)
  have h: "current_config_hash (init UnknownStatus (PDict [])) \<noteq> Some (fingerprint (render example_config))"
    by (simp add: init_def)
  have p: "push_raises ?e = Some ConnectionError" by simp
  have sc: "scrape_target_raises ?e = None" by (simp add: example_env_def)
  have op: "open_ports_raises ?e = None" by (simp add: example_env_def)
  have ok: "add_layer_raises ?e = None" "restart_raises ?e = None" by simp_all
  show ?thesis
    using c example_config_valid
      push_connection_error_continues [OF c example_generate0 h example_config_valid p sc op]
    by (simp add: restart_pje_ok [OF ok] init_def)
qed

lemma restart_pje_trace:
  "\<exists>ext. trace (restart_pje e t) = trace t @ ext
     \<and> (\<forall>b. Log INFO (''restart: '' @ py_format_bool b) \<notin> set ext)"
  by (auto simp: restart_pje_def charm_steps msg_layer_added_def msg_restarted_def
        split: option.splits)

lemma restart_pje_status_failed:
  assumes "add_layer_raises e = Some x \<or> (add_layer_raises e = None \<and> restart_raises e = Some x)"
  shows "\<exists>ext. trace (restart_pje e t) = trace t @ ext @ [Log ERROR (msg_restart_failed x)]
           \<and> (\<forall>st. SetStatus st \<notin> set ext)"
  using assms by (auto simp: restart_pje_def charm_steps)

text \<open>A pass whose first half does not end it comes to the decision with the status
  \<open>Maintenance\<close>; the flag is set when the hash differs or the plan does.\<close>

lemma configure_reaches_decision:
  assumes "can_connect e"
    and "generate_exporter_config e = Inr doc"
    and "current_config_hash s \<noteq> Some (fingerprint doc) \<longrightarrow>
           validate_config doc = Inr () \<and> (push_raises e = None \<or> push_raises e = Some ConnectionError)"
    and "scrape_target_raises e = None"
    and "open_ports_raises e = None"
  shows "\<exists>mid pre.
      unit_status mid = MaintenanceStatus msg_processing
    \<and> plan_services mid = plan_services s
    \<and> trace mid = trace s @ pre @ [Log INFO (''restart: '' @ py_format_bool
          (current_config_hash s \<noteq> Some (fingerprint doc)
             \<or> \<not> struct_eq (plan_services s) (layer_services build_layer)))]
    \<and> (\<forall>st. SetStatus st \<in> set pre \<longrightarrow> st = MaintenanceStatus msg_processing)
    \<and> (\<forall>b. Log INFO (''restart: '' @ py_format_bool b) \<notin> set pre)
    \<and> (current_config_hash s = Some (fingerprint doc) \<longrightarrow> (\<forall>ef \<in> set pre. \<not> is_push ef))
    \<and> configure e s =
        (if current_config_hash s \<noteq> Some (fingerprint doc)
             \<or> \<not> struct_eq (plan_services s) (layer_services build_layer)
         then (None, restart_pje e mid)
         else (None, set_status ActiveStatus mid))"
proof (cases "current_config_hash s = Some (fingerprint doc)")
  case True
  let ?pre = "[Log INFO msg_processing, SetStatus (MaintenanceStatus msg_processing),
           Log INFO (''exporter_config_hash: '' @ fingerprint doc),
           Log INFO (''current_config_hash: '' @ fingerprint doc),
           ExposeScrapeTarget, ReconfigureOpenPorts]"
  let ?mid = "s\<lparr>unit_status := MaintenanceStatus msg_processing,
         trace := trace s @ ?pre @ [Log INFO (''restart: '' @ py_format_bool
          (\<not> struct_eq (plan_services s) (layer_services build_layer)))]\<rparr>"
  have "configure e s =
        (if \<not> struct_eq (plan_services s) (layer_services build_layer)
         then (None, restart_pje e ?mid)
         else (None, set_status ActiveStatus ?mid))"
    using assms True
    by (simp add: configure_unchanged_hash configure_rest_ok Let_def set_status_def)
  with True show ?thesis
    by (intro exI [of _ ?mid] exI [of _ ?pre])
       (simp add: py_format_bool_def msg_processing_def OCI_CONFIG_PATH_def OCI_CONFIG_DIR_def)
next
  case False
  with assms have v: "validate_config doc = Inr ()"
    and p: "push_raises e = None \<or> push_raises e = Some ConnectionError" by auto
  from p show ?thesis
  proof
    assume pn: "push_raises e = None"
    let ?pre = "[Log INFO msg_processing, SetStatus (MaintenanceStatus msg_processing),
           Log INFO (''exporter_config_hash: '' @ fingerprint doc),
           Log INFO (''current_config_hash: '' @ py_format_opt (current_config_hash s)),
           Log INFO ''inside hash compare'',
           Log INFO ''Updating exporter service configuration.'',
           Log INFO ''Exporter configuration updated.'',
           Log INFO (''config_data: '' @ yaml_safe_dump e doc),
           Push OCI_CONFIG_PATH (yaml_safe_dump e doc),
           Log INFO (''push: '' @ OCI_CONFIG_PATH),
           ExposeScrapeTarget, ReconfigureOpenPorts]"
    let ?mid = "s\<lparr>unit_status := MaintenanceStatus msg_processing,
         current_config_hash := Some (fingerprint doc),
         trace := trace s @ ?pre @ [Log INFO ''restart: True'']\<rparr>"
    have "configure e s = (None, restart_pje e ?mid)"
      using assms False v pn
      by (simp add: configure_changed_hash try_apply_valid configure_rest_ok Let_def
            py_format_bool_def)
    with False show ?thesis
      by (intro exI [of _ ?mid] exI [of _ ?pre])
       (simp add: py_format_bool_def msg_processing_def OCI_CONFIG_PATH_def OCI_CONFIG_DIR_def)
  next
    assume pc: "push_raises e = Some ConnectionError"
    let ?pre = "[Log INFO msg_processing, SetStatus (MaintenanceStatus msg_processing),
           Log INFO (''exporter_config_hash: '' @ fingerprint doc),
           Log INFO (''current_config_hash: '' @ py_format_opt (current_config_hash s)),
           Log INFO ''inside hash compare'',
           Log INFO ''Updating exporter service configuration.'',
           Log INFO ''Exporter configuration updated.'',
           Log INFO (''config_data: '' @ yaml_safe_dump e doc),
           Log ERROR msg_push_refused,
           ExposeScrapeTarget, ReconfigureOpenPorts]"
    let ?mid = "s\<lparr>unit_status := MaintenanceStatus msg_processing,
         trace := trace s @ ?pre @ [Log INFO ''restart: True'']\<rparr>"
    have "configure e s = (None, restart_pje e ?mid)"
      using assms False v pc
      by (simp add: configure_changed_hash try_apply_valid configure_rest_ok Let_def
            py_format_bool_def log_def)
    with False show ?thesis
      by (intro exI [of _ ?mid] exI [of _ ?pre])
       (simp add: py_format_bool_def msg_processing_def OCI_CONFIG_PATH_def OCI_CONFIG_DIR_def)
  qed
qed

text \<open>The example when \<^verbatim>\<open>add_layer\<close> raises, on a charm with an empty plan and any status:
  the whole result of the pass.\<close>

lemma example_add_layer_refused:
  "configure
     (example_env\<lparr>push_raises := None, add_layer_raises := Some ''cannot add layer'',
                    restart_raises := None\<rparr>)
     (init st (PDict []))
   = (None,
      \<lparr>current_config_hash = Some (fingerprint (render example_config)),
       unit_status = MaintenanceStatus ''Processing new charm configuration.'',
       plan_services = PDict [],
       trace = [
         Log INFO ''Processing new charm configuration.'',
         SetStatus (MaintenanceStatus ''Processing new charm configuration.''),
         Log INFO (''exporter_config_hash: '' @ fingerprint (render example_config)),
         Log INFO ''current_config_hash: None'',
         Log INFO ''inside hash compare'',
         Log INFO ''Updating exporter service configuration.'',
         Log INFO ''Exporter configuration updated.'',
         Log INFO ''config_data: debug: false'',
         Push ''/var/lib/prometheus-juju-exporter/config.yaml'' ''debug: false'',
         Log INFO ''push: /var/lib/prometheus-juju-exporter/config.yaml'',
         ExposeScrapeTarget,
         ReconfigureOpenPorts,
         Log INFO ''restart: True'',
         Log ERROR ''Could not restart prometheus-juju-exporter and build new layer: cannot add layer'']\<rparr>)"
proof -
  let ?e = "example_env\<lparr>push_raises := None, add_layer_raises := Some ''cannot add layer'',
                        restart_raises := None\<rparr>"
  let ?s = "init st (PDict [])"
  have c: "can_connect ?e" by (simp add: example_env_def)
  have h: "current_config_hash ?s \<noteq> Some (fingerprint (render example_config))"
    by (simp add: init_def)
  have sc: "scrape_target_raises ?e = None" by (simp add: example_env_def)
  have op: "open_ports_raises ?e = None" by (simp add: example_env_def)
  have pn: "push_raises ?e = None" by simp
  have eq: "configure ?e ?s = (None, restart_pje ?e
      (?s\<lparr>unit_status := MaintenanceStatus msg_processing,
          current_config_hash := Some (fingerprint (render example_config)),
          trace := trace ?s @ [
           Log INFO msg_processing,
           SetStatus (MaintenanceStatus msg_processing),
           Log INFO (''exporter_config_hash: '' @ fingerprint (render example_config)),
           Log INFO (''current_config_hash: '' @ py_format_opt (current_config_hash ?s)),
           Log INFO ''inside hash compare'',
           Log INFO ''Updating exporter service configuration.'',
           Log INFO ''Exporter configuration updated.'',
           Log INFO (''config_data: '' @ yaml_safe_dump ?e (render example_config)),
           Push OCI_CONFIG_PATH (yaml_safe_dump ?e (render example_config)),
           Log INFO (''push: '' @ OCI_CONFIG_PATH),
           ExposeScrapeTarget, ReconfigureOpenPorts,
           Log INFO ''restart: True'']\<rparr>))"
    unfolding configure_changed_hash [OF c example_generate0 h]
      try_apply_valid [OF example_config_valid] configure_rest_ok [OF sc op]
    by (simp add: pn py_format_bool_def)
  have "restart_pje ?e t = log ERROR (msg_restart_failed ''cannot add layer'') t" for t
    by (simp add: restart_pje_def)
  with eq show ?thesis
    by (simp add: init_def log_def msg_processing_def py_format_opt_def example_env_def
          OCI_CONFIG_PATH_def OCI_CONFIG_DIR_def OCI_NAME_def msg_restart_failed_def)
qed

text \<open>
  Claim C6 says that, when the supervisor rejects the installation of the layer or the
  restart, the status is left at what was last known before the pass. It is not: the
  second statement of \<^verbatim>\<open>_configure\<close> writes \<open>Maintenance\<close> on every pass that reaches the
  supervisor, and \<^verbatim>\<open>restart_pje\<close>, which only logs the failure, leaves that. In the example,
  with a valid configuration and \<^verbatim>\<open>add_layer\<close> raising, a unit that was \<open>Active\<close> before the
  pass is in \<open>Maintenance\<close> after it, and so is a unit that was \<open>Blocked\<close>; the last effect of
  the pass is the error log of the failure.
\<close>

theorem restart_failure_status_counterexample:
  "unit_status (init ActiveStatus (PDict [])) = ActiveStatus
   \<and> fst (configure
        (example_env\<lparr>push_raises := None, add_layer_raises := Some ''cannot add layer'',
                       restart_raises := None\<rparr>)
        (init ActiveStatus (PDict []))) = None
   \<and> unit_status (snd (configure
        (example_env\<lparr>push_raises := None, add_layer_raises := Some ''cannot add layer'',
                       restart_raises := None\<rparr>)
        (init ActiveStatus (PDict []))))
       = MaintenanceStatus ''Processing new charm configuration.''
   \<and> last (trace (snd (configure
        (example_env\<lparr>push_raises := None, add_layer_raises := Some ''cannot add layer'',
                       restart_raises := None\<rparr>)
        (init ActiveStatus (PDict [])))))
       = Log ERROR ''Could not restart prometheus-juju-exporter and build new layer: cannot add layer''
   \<and> unit_status (snd (configure
        (example_env\<lparr>push_raises := None, add_layer_raises := Some ''cannot add layer'',
                       restart_raises := None\<rparr>)
        (init (BlockedStatus ''Invalid configuration. Please see logs.'') (PDict []))))
       = MaintenanceStatus ''Processing new charm configuration.''"
  by (simp add: example_add_layer_refused) (simp add: init_def)

text \<open>
  Claim C6, amended: the status that is left as it is, is the \<open>Maintenance\<close> status that the
  pass wrote itself, whatever the status before the pass. Take a pass that comes to a
  restart: the supervisor is reachable, the first half does not end the pass, the
  fingerprint or the plan differs, and neither the scrape target nor the ports raise. When
  \<^verbatim>\<open>add_layer\<close> or \<^verbatim>\<open>restart\<close> raises, with the message \<open>x\<close>, the pass returns normally, its
  last effect is the error log of the failure, the only status written during the pass is
  the \<open>Maintenance\<close> status of its first lines, which is the status at the end (neither
  \<open>Active\<close> nor \<open>Blocked\<close>), and \<^verbatim>\<open>restart_pje\<close> itself leaves the status as it finds it.
\<close>

theorem restart_failure_ends_in_maintenance:
  assumes "can_connect e"
    and "generate_exporter_config e = Inr doc"
    and "current_config_hash s \<noteq> Some (fingerprint doc) \<longrightarrow>
           validate_config doc = Inr () \<and> (push_raises e = None \<or> push_raises e = Some ConnectionError)"
    and "current_config_hash s \<noteq> Some (fingerprint doc)
           \<or> \<not> struct_eq (plan_services s) (layer_services build_layer)"
    and "scrape_target_raises e = None"
    and "open_ports_raises e = None"
    and "add_layer_raises e = Some x \<or> (add_layer_raises e = None \<and> restart_raises e = Some x)"
  shows "fst (configure e s) = None
     \<and> unit_status (snd (configure e s)) = MaintenanceStatus msg_processing
     \<and> (\<exists>new. trace (snd (configure e s)) = trace s @ new @ [Log ERROR (msg_restart_failed x)]
            \<and> (\<forall>st. SetStatus st \<in> set new \<longrightarrow> st = MaintenanceStatus msg_processing))
     \<and> (\<forall>t. unit_status (restart_pje e t) = unit_status t)"
proof -
  obtain mid pre where mid: "unit_status mid = MaintenanceStatus msg_processing"
    and tr: "trace mid = trace s @ pre @ [Log INFO (''restart: '' @ py_format_bool
          (current_config_hash s \<noteq> Some (fingerprint doc)
             \<or> \<not> struct_eq (plan_services s) (layer_services build_layer)))]"
    and pre: "\<forall>st. SetStatus st \<in> set pre \<longrightarrow> st = MaintenanceStatus msg_processing"
    and cf: "configure e s =
        (if current_config_hash s \<noteq> Some (fingerprint doc)
             \<or> \<not> struct_eq (plan_services s) (layer_services build_layer)
         then (None, restart_pje e mid)
         else (None, set_status ActiveStatus mid))"
    using configure_reaches_decision [OF assms(1-3) assms(5-6)] by blast
  from cf assms(4) have cf': "configure e s = (None, restart_pje e mid)" by simp
  obtain ext where ext: "trace (restart_pje e mid) = trace mid @ ext @ [Log ERROR (msg_restart_failed x)]"
    and nos: "\<forall>st. SetStatus st \<notin> set ext"
    using restart_pje_status_failed [OF assms(7)] by blast
  have st: "unit_status (restart_pje e t) = unit_status t" for t
    using restart_pje_failed [OF assms(7)] .
  have "trace (snd (configure e s)) =
      trace s @ (pre @ [Log INFO (''restart: '' @ py_format_bool
          (current_config_hash s \<noteq> Some (fingerprint doc)
             \<or> \<not> struct_eq (plan_services s) (layer_services build_layer)))] @ ext)
        @ [Log ERROR (msg_restart_failed x)]"
    by (simp add: cf' ext tr)
  moreover have "\<forall>st. SetStatus st \<in> set (pre @ [Log INFO (''restart: '' @ py_format_bool
          (current_config_hash s \<noteq> Some (fingerprint doc)
             \<or> \<not> struct_eq (plan_services s) (layer_services build_layer)))] @ ext)
        \<longrightarrow> st = MaintenanceStatus msg_processing"
    using pre nos by auto
  ultimately show ?thesis
    using st mid by (auto simp: cf')
qed

text \<open>
  Claim C6, amended, at the example, when \<^verbatim>\<open>add_layer\<close> raises on a unit that was \<open>Active\<close>:
  the whole result of the pass.
\<close>

theorem restart_failure_ends_in_maintenance_witness:
  "can_connect (example_env\<lparr>push_raises := None, add_layer_raises := Some ''cannot add layer'',
                             restart_raises := None\<rparr>)
   \<and> validate_config (render example_config) = Inr ()
   \<and> configure
       (example_env\<lparr>push_raises := None, add_layer_raises := Some ''cannot add layer'',
                      restart_raises := None\<rparr>)
       (init ActiveStatus (PDict []))
     = (None,
        \<lparr>current_config_hash = Some (fingerprint (render example_config)),
         unit_status = MaintenanceStatus ''Processing new charm configuration.'',
         plan_services = PDict [],
         trace = [
           Log INFO ''Processing new charm configuration.'',
           SetStatus (MaintenanceStatus ''Processing new charm configuration.''),
           Log INFO (''exporter_config_hash: '' @ fingerprint (render example_config)),
           Log INFO ''current_config_hash: None'',
           Log INFO ''inside hash compare'',
           Log INFO ''Updating exporter service configuration.'',
           Log INFO ''Exporter configuration updated.'',
           Log INFO ''config_data: debug: false'',
           Push ''/var/lib/prometheus-juju-exporter/config.yaml'' ''debug: false'',
           Log INFO ''push: /var/lib/prometheus-juju-exporter/config.yaml'',
           ExposeScrapeTarget,
           ReconfigureOpenPorts,
           Log INFO ''restart: True'',
           Log ERROR ''Could not restart prometheus-juju-exporter and build new layer: cannot add layer'']\<rparr>)"
proof -
  let ?e = "example_env\<lparr>push_raises := None, add_layer_raises := Some ''cannot add layer'',
                        restart_raises := None\<rparr>"
  let ?s = "init ActiveStatus (PDict [])"
  have c: "can_connect ?e" by (simp add: example_env_def)
  have h: "current_config_hash ?s \<noteq> Some (fingerprint (render example_config))"
    by (simp add: init_def)
  have a: "current_config_hash ?s \<noteq> Some (fingerprint (render example_config)) \<longrightarrow>
           validate_config (render example_config) = Inr ()
           \<and> (push_raises ?e = None \<or> push_raises ?e = Some ConnectionError)"
    using example_config_valid by simp
  have n: "current_config_hash ?s \<noteq> Some (fingerprint (render example_config))
           \<or> \<not> struct_eq (plan_services ?s) (layer_services build_layer)"
    using h by simp
  have sc: "scrape_target_raises ?e = None" by (simp add: example_env_def)
  have op: "open_ports_raises ?e = None" by (simp add: example_env_def)
  have f: "add_layer_raises ?e = Some ''cannot add layer''
       \<or> (add_layer_raises ?e = None \<and> restart_raises ?e = Some ''cannot add layer'')"
    by simp
  have pn: "push_raises ?e = None" by simp
  have eq: "configure ?e ?s = (None, restart_pje ?e
      (?s\<lparr>unit_status := MaintenanceStatus msg_processing,
          current_config_hash := Some (fingerprint (render example_config)),
          trace := trace ?s @ [
           Log INFO msg_processing,
           SetStatus (MaintenanceStatus msg_processing),
           Log INFO (''exporter_config_hash: '' @ fingerprint (render example_config)),
           Log INFO (''current_config_hash: '' @ py_format_opt (current_config_hash ?s)),
           Log INFO ''inside hash compare'',
           Log INFO ''Updating exporter service configuration.'',
           Log INFO ''Exporter configuration updated.'',
           Log INFO (''config_data: '' @ yaml_safe_dump ?e (render example_config)),
           Push OCI_CONFIG_PATH (yaml_safe_dump ?e (render example_config)),
           Log INFO (''push: '' @ OCI_CONFIG_PATH),
           ExposeScrapeTarget, ReconfigureOpenPorts,
           Log INFO ''restart: True'']\<rparr>))"
    unfolding configure_changed_hash [OF c example_generate0 h]
      try_apply_valid [OF example_config_valid] configure_rest_ok [OF sc op]
    by (simp add: pn py_format_bool_def)
  have "restart_pje ?e t = log ERROR (msg_restart_failed ''cannot add layer'') t" for t
    by (simp add: restart_pje_def)
  with eq show ?thesis
    using c example_config_valid
      restart_failure_ends_in_maintenance [OF c example_generate0 a n sc op f]
    by (simp add: init_def log_def msg_processing_def py_format_opt_def example_env_def
          OCI_CONFIG_PATH_def OCI_CONFIG_DIR_def OCI_NAME_def msg_restart_failed_def)
qed

text \<open>
  Claim C9. In a pass that comes to the decision, the flag \<^verbatim>\<open>restart\<close> that is logged is
  true exactly when the fingerprint differs from the stored one or the services of the
  plan differ from those of the layer. In particular, when the fingerprint is the stored
  one and the plan differs, nothing is applied and \<^verbatim>\<open>restart_pje\<close> runs.
\<close>

theorem restart_decision_is_disjunction:
  assumes "can_connect e"
    and "generate_exporter_config e = Inr doc"
    and "current_config_hash s \<noteq> Some (fingerprint doc) \<longrightarrow>
           validate_config doc = Inr () \<and> (push_raises e = None \<or> push_raises e = Some ConnectionError)"
    and "scrape_target_raises e = None"
    and "open_ports_raises e = None"
  shows "(\<exists>new. trace (snd (configure e s)) = trace s @ new
          \<and> (Log INFO ''restart: True'' \<in> set new \<longleftrightarrow>
               current_config_hash s \<noteq> Some (fingerprint doc)
               \<or> \<not> struct_eq (plan_services s) (layer_services build_layer))
          \<and> (Log INFO ''restart: False'' \<in> set new \<longleftrightarrow>
               \<not> (current_config_hash s \<noteq> Some (fingerprint doc)
                  \<or> \<not> struct_eq (plan_services s) (layer_services build_layer))))
     \<and> (current_config_hash s = Some (fingerprint doc)
          \<and> \<not> struct_eq (plan_services s) (layer_services build_layer) \<longrightarrow>
         configure e s =
           (None, restart_pje e
             (s\<lparr>unit_status := MaintenanceStatus msg_processing,
                trace := trace s @ [
                  Log INFO msg_processing,
                  SetStatus (MaintenanceStatus msg_processing),
                  Log INFO (''exporter_config_hash: '' @ fingerprint doc),
                  Log INFO (''current_config_hash: '' @ fingerprint doc),
                  ExposeScrapeTarget,
                  ReconfigureOpenPorts,
                  Log INFO ''restart: True'']\<rparr>)))"
proof -
  let ?r = "current_config_hash s \<noteq> Some (fingerprint doc)
             \<or> \<not> struct_eq (plan_services s) (layer_services build_layer)"
  obtain mid pre where
        tr: "trace mid = trace s @ pre @ [Log INFO (''restart: '' @ py_format_bool ?r)]"
    and nolog: "\<forall>b. Log INFO (''restart: '' @ py_format_bool b) \<notin> set pre"
    and cf: "configure e s =
        (if ?r then (None, restart_pje e mid) else (None, set_status ActiveStatus mid))"
    using configure_reaches_decision [OF assms] by blast
  obtain ext where ext: "trace (restart_pje e mid) = trace mid @ ext"
    and noinfo: "\<forall>b. Log INFO (''restart: '' @ py_format_bool b) \<notin> set ext"
    using restart_pje_trace by blast
  from nolog [rule_format, of True] nolog [rule_format, of False]
  have nt: "Log INFO ''restart: True'' \<notin> set pre" and nf: "Log INFO ''restart: False'' \<notin> set pre"
    by (simp_all add: py_format_bool_def)
  have first: "\<exists>new. trace (snd (configure e s)) = trace s @ new
          \<and> (Log INFO ''restart: True'' \<in> set new \<longleftrightarrow> ?r)
          \<and> (Log INFO ''restart: False'' \<in> set new \<longleftrightarrow> \<not> ?r)"
  proof (cases ?r)
    case True
    then have "trace (snd (configure e s)) =
        trace s @ (pre @ [Log INFO ''restart: True''] @ ext)"
      using cf ext tr by (simp add: py_format_bool_def)
    moreover have "Log INFO ''restart: True'' \<in> set (pre @ [Log INFO ''restart: True''] @ ext)"
      by simp
    moreover have "Log INFO ''restart: False'' \<notin> set (pre @ [Log INFO ''restart: True''] @ ext)"
      using nf noinfo [rule_format, of False] by (simp add: py_format_bool_def)
    ultimately show ?thesis using True by blast
  next
    case False
    then have "trace (snd (configure e s)) =
        trace s @ (pre @ [Log INFO ''restart: False'', SetStatus ActiveStatus])"
      using cf tr by (simp add: py_format_bool_def set_status_def)
    moreover have "Log INFO ''restart: False''
        \<in> set (pre @ [Log INFO ''restart: False'', SetStatus ActiveStatus])"
      by simp
    moreover have "Log INFO ''restart: True''
        \<notin> set (pre @ [Log INFO ''restart: False'', SetStatus ActiveStatus])"
      using nt by simp
    ultimately show ?thesis using False by blast
  qed
  have second: "configure e s =
           (None, restart_pje e
             (s\<lparr>unit_status := MaintenanceStatus msg_processing,
                trace := trace s @ [
                  Log INFO msg_processing,
                  SetStatus (MaintenanceStatus msg_processing),
                  Log INFO (''exporter_config_hash: '' @ fingerprint doc),
                  Log INFO (''current_config_hash: '' @ fingerprint doc),
                  ExposeScrapeTarget,
                  ReconfigureOpenPorts,
                  Log INFO ''restart: True'']\<rparr>))"
    if "current_config_hash s = Some (fingerprint doc)"
      and "\<not> struct_eq (plan_services s) (layer_services build_layer)"
    using that assms
    by (simp add: configure_unchanged_hash configure_rest_ok py_format_bool_def)
  from first second show ?thesis by blast
qed

text \<open>
  The layer of the charm and a plan that holds no other service.
\<close>

lemma example_env_generate: "generate_exporter_config example_env = Inr (render example_config)"
  by (simp add: generate_exporter_config_def example_env_def example_options_def example_config_def)

lemma layer_services_build_layer:
  "layer_services build_layer = PDict [(name, PDict [
           (''override'', PStr ''replace''),
           (''summary'', PStr ''prometheus-juju-exporter service''),
           (''command'', PStr ''/bin/python3 -m prometheus_juju_exporter.cli''),
           (''startup'', PStr ''enabled'')])]"
  by (simp add: layer_services_def build_layer_def)

lemma struct_eq_installed:
  "struct_eq (layer_services build_layer) (layer_services build_layer)"
  by (simp add: layer_services_build_layer)

lemma combine_dedicated_plan:
  assumes "plan = PDict [] \<or> (\<exists>v. plan = PDict [(name, v)])"
  shows "combine_services plan (layer_services build_layer) = layer_services build_layer"
  using assms by (auto simp: combine_services_def layer_services_build_layer)

text \<open>
  Claim C9 at the example: the fingerprint is the stored one, the plan is empty, and the
  pass installs the layer and restarts the service without a push.
\<close>

theorem restart_decision_is_disjunction_witness:
  "can_connect example_env
   \<and> \<not> struct_eq (PDict []) (layer_services build_layer)
   \<and> configure example_env
       \<lparr>current_config_hash = Some (fingerprint (render example_config)),
        unit_status = ActiveStatus, plan_services = PDict [], trace = []\<rparr>
     = (None,
        \<lparr>current_config_hash = Some (fingerprint (render example_config)),
         unit_status = ActiveStatus,
         plan_services = layer_services build_layer,
         trace = [
           Log INFO ''Processing new charm configuration.'',
           SetStatus (MaintenanceStatus ''Processing new charm configuration.''),
           Log INFO (''exporter_config_hash: '' @ fingerprint (render example_config)),
           Log INFO (''current_config_hash: '' @ fingerprint (render example_config)),
           ExposeScrapeTarget,
           ReconfigureOpenPorts,
           Log INFO ''restart: True'',
           AddLayer name build_layer,
           Log INFO msg_layer_added,
           Restart name,
           Log INFO msg_restarted,
           SetStatus ActiveStatus]\<rparr>)"
proof -
  let ?s = "\<lparr>current_config_hash = Some (fingerprint (render example_config)),
        unit_status = ActiveStatus, plan_services = PDict [], trace = []\<rparr>"
  have c: "can_connect example_env" by (simp add: example_env_def)
  have a: "current_config_hash ?s \<noteq> Some (fingerprint (render example_config)) \<longrightarrow>
           validate_config (render example_config) = Inr ()
           \<and> (push_raises example_env = None \<or> push_raises example_env = Some ConnectionError)"
    by simp
  have sc: "scrape_target_raises example_env = None" by (simp add: example_env_def)
  have op: "open_ports_raises example_env = None" by (simp add: example_env_def)
  have ok: "add_layer_raises example_env = None" "restart_raises example_env = None"
    by (simp_all add: example_env_def)
  have d: "\<not> struct_eq (PDict []) (layer_services build_layer)"
    by (simp add: layer_services_build_layer)
  have cmb: "combine_services (PDict []) (layer_services build_layer) = layer_services build_layer"
    by (rule combine_dedicated_plan) simp
  show ?thesis
    using c d restart_decision_is_disjunction [OF c example_env_generate a sc op]
    by (simp add: restart_pje_ok [OF ok] cmb msg_processing_def)
qed

text \<open>
  A pass with a valid configuration whose fingerprint is not the stored one, when every
  collaborator succeeds: the file is pushed, the layer is added to the plan and the
  service restarted.
\<close>

lemma changed_pass:
  assumes "can_connect e"
    and "generate_exporter_config e = Inr doc"
    and "validate_config doc = Inr ()"
    and "current_config_hash s \<noteq> Some (fingerprint doc)"
    and "push_raises e = None"
    and "scrape_target_raises e = None"
    and "open_ports_raises e = None"
    and "add_layer_raises e = None"
    and "restart_raises e = None"
  shows "configure e s =
    (None, s\<lparr>unit_status := ActiveStatus,
              current_config_hash := Some (fingerprint doc),
              plan_services := combine_services (plan_services s) (layer_services build_layer),
              trace := trace s @ [Log INFO msg_processing,
                SetStatus (MaintenanceStatus msg_processing),
                Log INFO (''exporter_config_hash: '' @ fingerprint doc),
                Log INFO (''current_config_hash: '' @ py_format_opt (current_config_hash s)),
                Log INFO ''inside hash compare'',
                Log INFO ''Updating exporter service configuration.'',
                Log INFO ''Exporter configuration updated.'',
                Log INFO (''config_data: '' @ yaml_safe_dump e doc),
                Push OCI_CONFIG_PATH (yaml_safe_dump e doc),
                Log INFO (''push: '' @ OCI_CONFIG_PATH),
                ExposeScrapeTarget, ReconfigureOpenPorts,
                Log INFO ''restart: True'',
                AddLayer name build_layer, Log INFO msg_layer_added,
                Restart name, Log INFO msg_restarted, SetStatus ActiveStatus]\<rparr>)"
  using assms
  by (simp add: configure_changed_hash try_apply_valid configure_rest_ok restart_pje_ok
        py_format_bool_def)

text \<open>
  A pass whose fingerprint is the stored one, when every collaborator succeeds: nothing is
  pushed; the services of the plan are compared with those of the layer, and the layer is
  added and the service restarted when they differ. In both cases \<open>Maintenance\<close> is written
  first and \<open>Active\<close> last.
\<close>

lemma unchanged_pass:
  assumes "can_connect e"
    and "generate_exporter_config e = Inr doc"
    and "current_config_hash s = Some (fingerprint doc)"
    and "scrape_target_raises e = None"
    and "open_ports_raises e = None"
    and "add_layer_raises e = None"
    and "restart_raises e = None"
  shows "configure e s =
    (None,
     if struct_eq (plan_services s) (layer_services build_layer)
     then s\<lparr>unit_status := ActiveStatus,
            trace := trace s @ [Log INFO msg_processing,
              SetStatus (MaintenanceStatus msg_processing),
              Log INFO (''exporter_config_hash: '' @ fingerprint doc),
              Log INFO (''current_config_hash: '' @ fingerprint doc),
              ExposeScrapeTarget, ReconfigureOpenPorts,
              Log INFO ''restart: False'',
              SetStatus ActiveStatus]\<rparr>
     else s\<lparr>unit_status := ActiveStatus,
            plan_services := combine_services (plan_services s) (layer_services build_layer),
            trace := trace s @ [Log INFO msg_processing,
              SetStatus (MaintenanceStatus msg_processing),
              Log INFO (''exporter_config_hash: '' @ fingerprint doc),
              Log INFO (''current_config_hash: '' @ fingerprint doc),
              ExposeScrapeTarget, ReconfigureOpenPorts,
              Log INFO ''restart: True'',
              AddLayer name build_layer, Log INFO msg_layer_added,
              Restart name, Log INFO msg_restarted, SetStatus ActiveStatus]\<rparr>)"
  unfolding configure_unchanged_hash [OF assms(1-3)]
  using assms(4-7)
  by (simp add: configure_rest_ok restart_pje_ok py_format_bool_def set_status_def)

text \<open>The layer added to a plan that holds another service: the other service stays.\<close>

lemma combine_shared_plan:
  "combine_services example_shared_plan (layer_services build_layer) =
     PDict [(''other'', PDict [
              (''override'', PStr ''replace''),
              (''command'', PStr ''/bin/sleep 3600'')]),
            (name, PDict [
              (''override'', PStr ''replace''),
              (''summary'', PStr ''prometheus-juju-exporter service''),
              (''command'', PStr ''/bin/python3 -m prometheus_juju_exporter.cli''),
              (''startup'', PStr ''enabled'')])]"
  by (simp add: combine_services_def layer_services_build_layer example_shared_plan_def name_def)

lemma shared_plan_differs:
  "\<not> struct_eq (combine_services example_shared_plan (layer_services build_layer))
        (layer_services build_layer)"
  unfolding combine_shared_plan by (simp add: layer_services_build_layer name_def)

lemma combine_shared_plan_twice:
  "combine_services (combine_services example_shared_plan (layer_services build_layer))
      (layer_services build_layer)
   = combine_services example_shared_plan (layer_services build_layer)"
  unfolding combine_shared_plan
  by (simp add: combine_services_def layer_services_build_layer name_def)

lemma example_env_succeeds:
  "can_connect example_env" "push_raises example_env = None"
  "scrape_target_raises example_env = None" "open_ports_raises example_env = None"
  "add_layer_raises example_env = None" "restart_raises example_env = None"
  by (simp_all add: example_env_def)

text \<open>The two passes of the example, from a fresh charm with the plan \<open>plan\<close>.\<close>

lemma example_first_pass:
  "configure example_env (init st plan) =
    (None, \<lparr>current_config_hash = Some (fingerprint (render example_config)),
            unit_status = ActiveStatus,
            plan_services = combine_services plan (layer_services build_layer),
            trace = [Log INFO msg_processing,
              SetStatus (MaintenanceStatus msg_processing),
              Log INFO (''exporter_config_hash: '' @ fingerprint (render example_config)),
              Log INFO ''current_config_hash: None'',
              Log INFO ''inside hash compare'',
              Log INFO ''Updating exporter service configuration.'',
              Log INFO ''Exporter configuration updated.'',
              Log INFO ''config_data: debug: false'',
              Push OCI_CONFIG_PATH ''debug: false'',
              Log INFO (''push: '' @ OCI_CONFIG_PATH),
              ExposeScrapeTarget, ReconfigureOpenPorts,
              Log INFO ''restart: True'',
              AddLayer name build_layer, Log INFO msg_layer_added,
              Restart name, Log INFO msg_restarted, SetStatus ActiveStatus]\<rparr>)"
proof -
  have h: "current_config_hash (init st plan) \<noteq> Some (fingerprint (render example_config))"
    by (simp add: init_def)
  show ?thesis
    unfolding changed_pass [OF example_env_succeeds(1) example_env_generate example_config_valid
        h example_env_succeeds(2-6)]
    by (simp add: init_def py_format_opt_def example_env_def)
qed

lemma example_second_pass:
  assumes "current_config_hash s = Some (fingerprint (render example_config))"
  shows "configure example_env s =
    (None,
     if struct_eq (plan_services s) (layer_services build_layer)
     then s\<lparr>unit_status := ActiveStatus,
            trace := trace s @ [Log INFO msg_processing,
              SetStatus (MaintenanceStatus msg_processing),
              Log INFO (''exporter_config_hash: '' @ fingerprint (render example_config)),
              Log INFO (''current_config_hash: '' @ fingerprint (render example_config)),
              ExposeScrapeTarget, ReconfigureOpenPorts,
              Log INFO ''restart: False'',
              SetStatus ActiveStatus]\<rparr>
     else s\<lparr>unit_status := ActiveStatus,
            plan_services := combine_services (plan_services s) (layer_services build_layer),
            trace := trace s @ [Log INFO msg_processing,
              SetStatus (MaintenanceStatus msg_processing),
              Log INFO (''exporter_config_hash: '' @ fingerprint (render example_config)),
              Log INFO (''current_config_hash: '' @ fingerprint (render example_config)),
              ExposeScrapeTarget, ReconfigureOpenPorts,
              Log INFO ''restart: True'',
              AddLayer name build_layer, Log INFO msg_layer_added,
              Restart name, Log INFO msg_restarted, SetStatus ActiveStatus]\<rparr>)"
  by (rule unchanged_pass [OF example_env_succeeds(1) example_env_generate assms
        example_env_succeeds(3-6)])

text \<open>
  Claim C4 says that the second of two passes with the same options and the same installed
  definition restarts nothing, and that a pass that needs no restart writes \<open>Active\<close> only
  when the status is not \<open>Active\<close> already. Both fail.

  First, \<^verbatim>\<open>_configure\<close> compares all the services of the plan with the services of its own
  layer. When the plan holds a service of another layer, the plan after the first pass
  holds both, the comparison differs on every pass, and the second pass, which pushes
  nothing and leaves the plan as it is, adds the layer and restarts the service again: two
  restarts after two passes.

  Second, every pass writes \<open>Maintenance\<close> before anything else, so the test of the last
  lines never finds \<open>Active\<close>. From a fresh charm with an empty plan the first pass ends
  \<open>Active\<close>, and the second pass, which needs no restart, writes \<open>Maintenance\<close> and then
  \<open>Active\<close>.
\<close>

theorem two_passes_counterexample:
  "validate_config (render example_config) = Inr ()
   \<and> fst (configure example_env (init UnknownStatus example_shared_plan)) = None
   \<and> fst (configure example_env
        (snd (configure example_env (init UnknownStatus example_shared_plan)))) = None
   \<and> plan_services (snd (configure example_env
        (snd (configure example_env (init UnknownStatus example_shared_plan)))))
       = plan_services (snd (configure example_env (init UnknownStatus example_shared_plan)))
   \<and> length (filter is_push (trace (snd (configure example_env
        (snd (configure example_env (init UnknownStatus example_shared_plan))))))) = 1
   \<and> length (filter is_restart (trace
        (snd (configure example_env (init UnknownStatus example_shared_plan))))) = 1
   \<and> length (filter is_restart (trace (snd (configure example_env
        (snd (configure example_env (init UnknownStatus example_shared_plan))))))) = 2
   \<and> unit_status (snd (configure example_env (init UnknownStatus (PDict [])))) = ActiveStatus
   \<and> trace (snd (configure example_env
        (snd (configure example_env (init UnknownStatus (PDict []))))))
       = trace (snd (configure example_env (init UnknownStatus (PDict []))))
         @ [Log INFO ''Processing new charm configuration.'',
            SetStatus (MaintenanceStatus ''Processing new charm configuration.''),
            Log INFO (''exporter_config_hash: '' @ fingerprint (render example_config)),
            Log INFO (''current_config_hash: '' @ fingerprint (render example_config)),
            ExposeScrapeTarget,
            ReconfigureOpenPorts,
            Log INFO ''restart: False'',
            SetStatus ActiveStatus]"
proof -
  have d: "combine_services (PDict []) (layer_services build_layer) = layer_services build_layer"
    by (rule combine_dedicated_plan) simp
  have a: "fst (configure example_env (init UnknownStatus example_shared_plan)) = None"
    by (simp add: example_first_pass)
  have b: "fst (configure example_env
        (snd (configure example_env (init UnknownStatus example_shared_plan)))) = None"
    by (simp add: example_first_pass example_second_pass)
  have c: "plan_services (snd (configure example_env
        (snd (configure example_env (init UnknownStatus example_shared_plan)))))
       = plan_services (snd (configure example_env (init UnknownStatus example_shared_plan)))"
    by (simp add: example_first_pass example_second_pass shared_plan_differs
          combine_shared_plan_twice)
  have p: "length (filter is_push (trace (snd (configure example_env
        (snd (configure example_env (init UnknownStatus example_shared_plan))))))) = 1"
    by (simp add: example_first_pass example_second_pass shared_plan_differs)
  have r1: "length (filter is_restart (trace
        (snd (configure example_env (init UnknownStatus example_shared_plan))))) = 1"
    by (simp add: example_first_pass)
  have r2: "length (filter is_restart (trace (snd (configure example_env
        (snd (configure example_env (init UnknownStatus example_shared_plan))))))) = 2"
    by (simp add: example_first_pass example_second_pass shared_plan_differs)
  have u: "unit_status (snd (configure example_env (init UnknownStatus (PDict [])))) = ActiveStatus"
    by (simp add: example_first_pass)
  have t: "trace (snd (configure example_env
        (snd (configure example_env (init UnknownStatus (PDict []))))))
       = trace (snd (configure example_env (init UnknownStatus (PDict []))))
         @ [Log INFO ''Processing new charm configuration.'',
            SetStatus (MaintenanceStatus ''Processing new charm configuration.''),
            Log INFO (''exporter_config_hash: '' @ fingerprint (render example_config)),
            Log INFO (''current_config_hash: '' @ fingerprint (render example_config)),
            ExposeScrapeTarget,
            ReconfigureOpenPorts,
            Log INFO ''restart: False'',
            SetStatus ActiveStatus]"
    by (simp add: example_first_pass example_second_pass d struct_eq_installed
          msg_processing_def)
  from example_config_valid a b c p r1 r2 u t show ?thesis by blast
qed

text \<open>
  Claim C4, amended. Take a valid configuration whose fingerprint is not the stored one,
  collaborators that all succeed, and two passes in a row of the same charm object, which
  keeps the stored fingerprint between them. Both return normally. The first pushes once,
  adds the layer, restarts once and ends \<open>Active\<close>. The second pushes nothing; it restarts
  nothing exactly when the services of the plan after the first pass are those of the
  layer, which is so when the plan before held at most the service of the charm, and
  otherwise it adds the layer and restarts again. In both cases the second pass writes
  \<open>Maintenance\<close> and then \<open>Active\<close>, although the status before it was \<open>Active\<close>. And every
  pass that needs no restart writes \<open>Maintenance\<close> and then \<open>Active\<close>, whatever the status
  before it.
\<close>

theorem two_passes_converge:
  assumes "can_connect e"
    and "generate_exporter_config e = Inr doc"
    and "validate_config doc = Inr ()"
    and "current_config_hash s \<noteq> Some (fingerprint doc)"
    and "push_raises e = None"
    and "scrape_target_raises e = None"
    and "open_ports_raises e = None"
    and "add_layer_raises e = None"
    and "restart_raises e = None"
  shows "(\<exists>s1 s2 t1 t2.
            configure e s = (None, s1) \<and> configure e s1 = (None, s2)
          \<and> trace s1 = trace s @ t1 \<and> trace s2 = trace s1 @ t2
          \<and> t1 = [Log INFO msg_processing,
                   SetStatus (MaintenanceStatus msg_processing),
                   Log INFO (''exporter_config_hash: '' @ fingerprint doc),
                   Log INFO (''current_config_hash: '' @ py_format_opt (current_config_hash s)),
                   Log INFO ''inside hash compare'',
                   Log INFO ''Updating exporter service configuration.'',
                   Log INFO ''Exporter configuration updated.'',
                   Log INFO (''config_data: '' @ yaml_safe_dump e doc),
                   Push OCI_CONFIG_PATH (yaml_safe_dump e doc),
                   Log INFO (''push: '' @ OCI_CONFIG_PATH),
                   ExposeScrapeTarget,
                   ReconfigureOpenPorts,
                   Log INFO ''restart: True'',
                   AddLayer name build_layer,
                   Log INFO msg_layer_added,
                   Restart name,
                   Log INFO msg_restarted,
                   SetStatus ActiveStatus]
          \<and> length (filter is_push t1) = 1 \<and> length (filter is_restart t1) = 1
          \<and> unit_status s1 = ActiveStatus
          \<and> current_config_hash s1 = Some (fingerprint doc)
          \<and> plan_services s1 = combine_services (plan_services s) (layer_services build_layer)
          \<and> (plan_services s = PDict [] \<or> (\<exists>v. plan_services s = PDict [(name, v)])
               \<longrightarrow> struct_eq (plan_services s1) (layer_services build_layer))
          \<and> filter is_push t2 = []
          \<and> (filter is_restart t2 = [] \<longleftrightarrow>
               struct_eq (plan_services s1) (layer_services build_layer))
          \<and> (filter is_add_layer t2 = [] \<longleftrightarrow>
               struct_eq (plan_services s1) (layer_services build_layer))
          \<and> t2 = (if struct_eq (plan_services s1) (layer_services build_layer)
                  then [Log INFO msg_processing,
                        SetStatus (MaintenanceStatus msg_processing),
                        Log INFO (''exporter_config_hash: '' @ fingerprint doc),
                        Log INFO (''current_config_hash: '' @ fingerprint doc),
                        ExposeScrapeTarget,
                        ReconfigureOpenPorts,
                        Log INFO ''restart: False'',
                        SetStatus ActiveStatus]
                  else [Log INFO msg_processing,
                        SetStatus (MaintenanceStatus msg_processing),
                        Log INFO (''exporter_config_hash: '' @ fingerprint doc),
                        Log INFO (''current_config_hash: '' @ fingerprint doc),
                        ExposeScrapeTarget,
                        ReconfigureOpenPorts,
                        Log INFO ''restart: True'',
                        AddLayer name build_layer,
                        Log INFO msg_layer_added,
                        Restart name,
                        Log INFO msg_restarted,
                        SetStatus ActiveStatus])
          \<and> current_config_hash s2 = Some (fingerprint doc)
          \<and> unit_status s2 = ActiveStatus)
     \<and> (\<forall>t. current_config_hash t = Some (fingerprint doc)
              \<and> struct_eq (plan_services t) (layer_services build_layer) \<longrightarrow>
            configure e t =
              (None,
               t\<lparr>unit_status := ActiveStatus,
                 trace := trace t @ [Log INFO msg_processing,
                            SetStatus (MaintenanceStatus msg_processing),
                            Log INFO (''exporter_config_hash: '' @ fingerprint doc),
                            Log INFO (''current_config_hash: '' @ fingerprint doc),
                            ExposeScrapeTarget,
                            ReconfigureOpenPorts,
                            Log INFO ''restart: False'',
                            SetStatus ActiveStatus]\<rparr>))"
proof -
  let ?t1 = "[Log INFO msg_processing,
           SetStatus (MaintenanceStatus msg_processing),
           Log INFO (''exporter_config_hash: '' @ fingerprint doc),
           Log INFO (''current_config_hash: '' @ py_format_opt (current_config_hash s)),
           Log INFO ''inside hash compare'',
           Log INFO ''Updating exporter service configuration.'',
           Log INFO ''Exporter configuration updated.'',
           Log INFO (''config_data: '' @ yaml_safe_dump e doc),
           Push OCI_CONFIG_PATH (yaml_safe_dump e doc),
           Log INFO (''push: '' @ OCI_CONFIG_PATH),
           ExposeScrapeTarget, ReconfigureOpenPorts,
           Log INFO ''restart: True'',
           AddLayer name build_layer, Log INFO msg_layer_added,
           Restart name, Log INFO msg_restarted, SetStatus ActiveStatus]"
  let ?s1 = "s\<lparr>unit_status := ActiveStatus,
              current_config_hash := Some (fingerprint doc),
              plan_services := combine_services (plan_services s) (layer_services build_layer),
              trace := trace s @ ?t1\<rparr>"
  let ?same = "struct_eq (plan_services ?s1) (layer_services build_layer)"
  let ?quiet = "[Log INFO msg_processing,
                   SetStatus (MaintenanceStatus msg_processing),
                   Log INFO (''exporter_config_hash: '' @ fingerprint doc),
                   Log INFO (''current_config_hash: '' @ fingerprint doc),
                   ExposeScrapeTarget,
                   ReconfigureOpenPorts,
                   Log INFO ''restart: False'',
                   SetStatus ActiveStatus]"
  let ?again = "[Log INFO msg_processing,
                   SetStatus (MaintenanceStatus msg_processing),
                   Log INFO (''exporter_config_hash: '' @ fingerprint doc),
                   Log INFO (''current_config_hash: '' @ fingerprint doc),
                   ExposeScrapeTarget,
                   ReconfigureOpenPorts,
                   Log INFO ''restart: True'',
                   AddLayer name build_layer,
                   Log INFO msg_layer_added,
                   Restart name,
                   Log INFO msg_restarted,
                   SetStatus ActiveStatus]"
  let ?t2 = "if ?same then ?quiet else ?again"
  let ?s2 = "if ?same
             then ?s1\<lparr>unit_status := ActiveStatus, trace := trace ?s1 @ ?quiet\<rparr>
             else ?s1\<lparr>unit_status := ActiveStatus,
                      plan_services :=
                        combine_services (plan_services ?s1) (layer_services build_layer),
                      trace := trace ?s1 @ ?again\<rparr>"
  have p1: "configure e s = (None, ?s1)"
    by (rule changed_pass [OF assms])
  have h1: "current_config_hash ?s1 = Some (fingerprint doc)" by simp
  have p2: "configure e ?s1 = (None, ?s2)"
    by (rule unchanged_pass [OF assms(1-2) h1 assms(6-9)])
  have first: "\<exists>s1 s2 t1 t2.
            configure e s = (None, s1) \<and> configure e s1 = (None, s2)
          \<and> trace s1 = trace s @ t1 \<and> trace s2 = trace s1 @ t2
          \<and> t1 = ?t1
          \<and> length (filter is_push t1) = 1 \<and> length (filter is_restart t1) = 1
          \<and> unit_status s1 = ActiveStatus
          \<and> current_config_hash s1 = Some (fingerprint doc)
          \<and> plan_services s1 = combine_services (plan_services s) (layer_services build_layer)
          \<and> (plan_services s = PDict [] \<or> (\<exists>v. plan_services s = PDict [(name, v)])
               \<longrightarrow> struct_eq (plan_services s1) (layer_services build_layer))
          \<and> filter is_push t2 = []
          \<and> (filter is_restart t2 = [] \<longleftrightarrow>
               struct_eq (plan_services s1) (layer_services build_layer))
          \<and> (filter is_add_layer t2 = [] \<longleftrightarrow>
               struct_eq (plan_services s1) (layer_services build_layer))
          \<and> t2 = (if struct_eq (plan_services s1) (layer_services build_layer)
                  then ?quiet else ?again)
          \<and> current_config_hash s2 = Some (fingerprint doc)
          \<and> unit_status s2 = ActiveStatus"
  proof -
    have c1: "trace ?s1 = trace s @ ?t1" by simp
    have c2: "trace ?s2 = trace ?s1 @ ?t2" by simp
    have c3: "length (filter is_push ?t1) = 1" by simp
    have c4: "length (filter is_restart ?t1) = 1" by simp
    have c5: "unit_status ?s1 = ActiveStatus" by simp
    have c6: "plan_services ?s1 = combine_services (plan_services s) (layer_services build_layer)"
      by simp
    have c7: "plan_services s = PDict [] \<or> (\<exists>v. plan_services s = PDict [(name, v)])
               \<longrightarrow> ?same"
    proof
      assume "plan_services s = PDict [] \<or> (\<exists>v. plan_services s = PDict [(name, v)])"
      from combine_dedicated_plan [OF this] show ?same
        by (simp add: struct_eq_installed)
    qed
    have c8: "filter is_push ?t2 = []" by simp
    have c9: "filter is_restart ?t2 = [] \<longleftrightarrow> ?same" by simp
    have c10: "filter is_add_layer ?t2 = [] \<longleftrightarrow> ?same" by simp
    have c11: "current_config_hash ?s2 = Some (fingerprint doc)" by simp
    have c12: "unit_status ?s2 = ActiveStatus" by simp
    from p1 p2 c1 c2 c3 c4 c5 h1 c6 c7 c8 c9 c10 c11 c12 show ?thesis by blast
  qed
  have second: "configure e t =
              (None,
               t\<lparr>unit_status := ActiveStatus,
                 trace := trace t @ ?quiet\<rparr>)"
    if "current_config_hash t = Some (fingerprint doc)
          \<and> struct_eq (plan_services t) (layer_services build_layer)" for t
    using that unchanged_pass [OF assms(1-2) _ assms(6-9), of t] by simp
  from first second show ?thesis by blast
qed

text \<open>
  Claim C4, amended, at the example, from a fresh charm with an empty plan: the effects of
  the two passes. The trace holds one push, one added layer and one restart, and the
  status is written four times.
\<close>

theorem two_passes_converge_witness:
  "can_connect example_env
   \<and> validate_config (render example_config) = Inr ()
   \<and> current_config_hash (init UnknownStatus (PDict [])) \<noteq> Some (fingerprint (render example_config))
   \<and> fst (configure example_env (init UnknownStatus (PDict []))) = None
   \<and> fst (configure example_env
          (snd (configure example_env (init UnknownStatus (PDict []))))) = None
   \<and> struct_eq (plan_services (snd (configure example_env (init UnknownStatus (PDict [])))))
        (layer_services build_layer)
   \<and> trace (snd (configure example_env
           (snd (configure example_env (init UnknownStatus (PDict []))))))
       = [Log INFO ''Processing new charm configuration.'',
          SetStatus (MaintenanceStatus ''Processing new charm configuration.''),
          Log INFO (''exporter_config_hash: '' @ fingerprint (render example_config)),
          Log INFO ''current_config_hash: None'',
          Log INFO ''inside hash compare'',
          Log INFO ''Updating exporter service configuration.'',
          Log INFO ''Exporter configuration updated.'',
          Log INFO ''config_data: debug: false'',
          Push ''/var/lib/prometheus-juju-exporter/config.yaml'' ''debug: false'',
          Log INFO ''push: /var/lib/prometheus-juju-exporter/config.yaml'',
          ExposeScrapeTarget,
          ReconfigureOpenPorts,
          Log INFO ''restart: True'',
          AddLayer name build_layer,
          Log INFO msg_layer_added,
          Restart name,
          Log INFO msg_restarted,
          SetStatus ActiveStatus,
          Log INFO ''Processing new charm configuration.'',
          SetStatus (MaintenanceStatus ''Processing new charm configuration.''),
          Log INFO (''exporter_config_hash: '' @ fingerprint (render example_config)),
          Log INFO (''current_config_hash: '' @ fingerprint (render example_config)),
          ExposeScrapeTarget,
          ReconfigureOpenPorts,
          Log INFO ''restart: False'',
          SetStatus ActiveStatus]
   \<and> unit_status (snd (configure example_env
           (snd (configure example_env (init UnknownStatus (PDict [])))))) = ActiveStatus"
proof -
  let ?s = "init UnknownStatus (PDict [])"
  have c: "can_connect example_env" by (simp add: example_env_def)
  have h: "current_config_hash ?s \<noteq> Some (fingerprint (render example_config))"
    by (simp add: init_def)
  have e: "push_raises example_env = None" "scrape_target_raises example_env = None"
    "open_ports_raises example_env = None" "add_layer_raises example_env = None"
    "restart_raises example_env = None"
    by (simp_all add: example_env_def)
  have p: "plan_services ?s = PDict [] \<or> (\<exists>v. plan_services ?s = PDict [(name, v)])"
    by (simp add: init_def)
  from two_passes_converge [OF c example_env_generate example_config_valid h e]
  obtain s1 s2 t1 t2 where
        r1: "configure example_env ?s = (None, s1)"
    and r2: "configure example_env s1 = (None, s2)"
    and tr1: "trace s1 = trace ?s @ t1"
    and tr2: "trace s2 = trace s1 @ t2"
    and t1: "t1 = [Log INFO msg_processing,
                   SetStatus (MaintenanceStatus msg_processing),
                   Log INFO (''exporter_config_hash: '' @ fingerprint (render example_config)),
                   Log INFO (''current_config_hash: '' @ py_format_opt (current_config_hash ?s)),
                   Log INFO ''inside hash compare'',
                   Log INFO ''Updating exporter service configuration.'',
                   Log INFO ''Exporter configuration updated.'',
                   Log INFO (''config_data: '' @ yaml_safe_dump example_env (render example_config)),
                   Push OCI_CONFIG_PATH (yaml_safe_dump example_env (render example_config)),
                   Log INFO (''push: '' @ OCI_CONFIG_PATH),
                   ExposeScrapeTarget,
                   ReconfigureOpenPorts,
                   Log INFO ''restart: True'',
                   AddLayer name build_layer,
                   Log INFO msg_layer_added,
                   Restart name,
                   Log INFO msg_restarted,
                   SetStatus ActiveStatus]"
    and same: "plan_services ?s = PDict [] \<or> (\<exists>v. plan_services ?s = PDict [(name, v)])
               \<longrightarrow> struct_eq (plan_services s1) (layer_services build_layer)"
    and t2: "t2 = (if struct_eq (plan_services s1) (layer_services build_layer)
                  then [Log INFO msg_processing,
                        SetStatus (MaintenanceStatus msg_processing),
                        Log INFO (''exporter_config_hash: '' @ fingerprint (render example_config)),
                        Log INFO (''current_config_hash: '' @ fingerprint (render example_config)),
                        ExposeScrapeTarget,
                        ReconfigureOpenPorts,
                        Log INFO ''restart: False'',
                        SetStatus ActiveStatus]
                  else [Log INFO msg_processing,
                        SetStatus (MaintenanceStatus msg_processing),
                        Log INFO (''exporter_config_hash: '' @ fingerprint (render example_config)),
                        Log INFO (''current_config_hash: '' @ fingerprint (render example_config)),
                        ExposeScrapeTarget,
                        ReconfigureOpenPorts,
                        Log INFO ''restart: True'',
                        AddLayer name build_layer,
                        Log INFO msg_layer_added,
                        Restart name,
                        Log INFO msg_restarted,
                        SetStatus ActiveStatus])"
    and st: "unit_status s2 = ActiveStatus"
    by blast
  from same p have eq: "struct_eq (plan_services s1) (layer_services build_layer)" by simp
  have tr: "trace s2 = t1 @ t2" using tr1 tr2 by (simp add: init_def)
  have a1: "fst (configure example_env ?s) = None" by (simp add: r1)
  have a2: "fst (configure example_env (snd (configure example_env ?s))) = None"
    by (simp add: r1 r2)
  have a3: "struct_eq (plan_services (snd (configure example_env ?s)))
        (layer_services build_layer)"
    using eq by (simp add: r1)
  have a4: "trace (snd (configure example_env (snd (configure example_env ?s)))) = t1 @ t2"
    by (simp add: r1 r2 tr)
  have a5: "unit_status (snd (configure example_env (snd (configure example_env ?s))))
        = ActiveStatus"
    by (simp add: r1 r2 st)
  have a6: "t1 @ t2 =
         [Log INFO ''Processing new charm configuration.'',
          SetStatus (MaintenanceStatus ''Processing new charm configuration.''),
          Log INFO (''exporter_config_hash: '' @ fingerprint (render example_config)),
          Log INFO ''current_config_hash: None'',
          Log INFO ''inside hash compare'',
          Log INFO ''Updating exporter service configuration.'',
          Log INFO ''Exporter configuration updated.'',
          Log INFO ''config_data: debug: false'',
          Push ''/var/lib/prometheus-juju-exporter/config.yaml'' ''debug: false'',
          Log INFO ''push: /var/lib/prometheus-juju-exporter/config.yaml'',
          ExposeScrapeTarget,
          ReconfigureOpenPorts,
          Log INFO ''restart: True'',
          AddLayer name build_layer,
          Log INFO msg_layer_added,
          Restart name,
          Log INFO msg_restarted,
          SetStatus ActiveStatus,
          Log INFO ''Processing new charm configuration.'',
          SetStatus (MaintenanceStatus ''Processing new charm configuration.''),
          Log INFO (''exporter_config_hash: '' @ fingerprint (render example_config)),
          Log INFO (''current_config_hash: '' @ fingerprint (render example_config)),
          ExposeScrapeTarget,
          ReconfigureOpenPorts,
          Log INFO ''restart: False'',
          SetStatus ActiveStatus]"
    using eq
    by (simp add: t1 t2 init_def msg_processing_def py_format_opt_def example_env_def
          OCI_CONFIG_PATH_def OCI_CONFIG_DIR_def OCI_NAME_def)
  from c example_config_valid h a1 a2 a3 a4 [unfolded a6] a5 show ?thesis by blast
qed


section \<open>Properties of the fingerprint\<close>

lemma struct_eq_scalar:
  "is_scalar a \<Longrightarrow> is_scalar b \<Longrightarrow> struct_eq a b \<Longrightarrow> a = b"
  by (cases a; cases b) simp_all

lemma struct_eq_str_lists:
  "list_all2 struct_eq (map PStr xs) (map PStr ys) \<Longrightarrow> xs = ys"
  by (induction xs arbitrary: ys) (auto simp: list_all2_Cons1)

lemma struct_eq_controller_endpoint:
  "struct_eq (controller_endpoint c1) (controller_endpoint c2) \<Longrightarrow>
   controller_endpoint c1 = controller_endpoint c2"
  by (auto simp: controller_endpoint_def split: option.splits if_splits dest: struct_eq_str_lists)

lemma struct_eq_virt_macs:
  "struct_eq (virt_macs c1) (virt_macs c2) \<Longrightarrow> virt_macs c1 = virt_macs c2"
  by (auto simp: virt_macs_def split: option.splits if_splits dest: struct_eq_str_lists)

lemma struct_eq_render:
  "struct_eq (render c1) (render c2) \<longleftrightarrow>
     struct_eq (debug c1) (debug c2) \<and> struct_eq (customer c1) (customer c2) \<and>
     struct_eq (cloud c1) (cloud c2) \<and>
     struct_eq (controller_endpoint c1) (controller_endpoint c2) \<and>
     struct_eq (ca_cert c1) (ca_cert c2) \<and> struct_eq (user c1) (user c2) \<and>
     struct_eq (password c1) (password c2) \<and> struct_eq (interval c1) (interval c2) \<and>
     struct_eq (port c1) (port c2) \<and> struct_eq (virt_macs c1) (virt_macs c2) \<and>
     struct_eq (if truthy (match_interfaces c1) then match_interfaces c1 else PStr ''.*'')
               (if truthy (match_interfaces c2) then match_interfaces c2 else PStr ''.*'')"
  unfolding render_def by simp

text \<open>
  Claim C3, amended. \<^verbatim>\<open>render\<close> writes the keys in one order, so two documents rendered from
  scalar options that are structurally equal are the same document, and their fingerprints
  are equal.
\<close>

theorem rendered_documents_fingerprint:
  assumes "scalar_options c1" and "scalar_options c2"
    and "struct_eq (render c1) (render c2)"
  shows "render c1 = render c2 \<and> fingerprint (render c1) = fingerprint (render c2)"
proof -
  from assms(3) have s: "struct_eq (debug c1) (debug c2)" "struct_eq (customer c1) (customer c2)"
    "struct_eq (cloud c1) (cloud c2)"
    "struct_eq (controller_endpoint c1) (controller_endpoint c2)"
    "struct_eq (ca_cert c1) (ca_cert c2)" "struct_eq (user c1) (user c2)"
    "struct_eq (password c1) (password c2)" "struct_eq (interval c1) (interval c2)"
    "struct_eq (port c1) (port c2)" "struct_eq (virt_macs c1) (virt_macs c2)"
    "struct_eq (if truthy (match_interfaces c1) then match_interfaces c1 else PStr ''.*'')
               (if truthy (match_interfaces c2) then match_interfaces c2 else PStr ''.*'')"
    by (simp_all add: struct_eq_render)
  have m: "(if truthy (match_interfaces c1) then match_interfaces c1 else PStr ''.*'')
         = (if truthy (match_interfaces c2) then match_interfaces c2 else PStr ''.*'')"
    using s(11) assms(1,2) by (intro struct_eq_scalar) (auto simp: scalar_options_def)
  have "render c1 = render c2"
    unfolding render_def
    using s assms(1,2) m struct_eq_controller_endpoint [OF s(4)] struct_eq_virt_macs [OF s(10)]
    by (simp add: scalar_options_def struct_eq_scalar)
  then show ?thesis by simp
qed

text \<open>
  Claim C3, amended, at the example: an empty \<^verbatim>\<open>match-interfaces\<close> and the value \<^verbatim>\<open>.*\<close> are
  two configurations with one rendered document.
\<close>

theorem rendered_documents_fingerprint_witness:
  "scalar_options example_config
   \<and> scalar_options (example_config\<lparr>match_interfaces := PStr ''.*''\<rparr>)
   \<and> struct_eq (render example_config) (render (example_config\<lparr>match_interfaces := PStr ''.*''\<rparr>))
   \<and> example_config \<noteq> example_config\<lparr>match_interfaces := PStr ''.*''\<rparr>
   \<and> fingerprint (render example_config)
       = fingerprint (render (example_config\<lparr>match_interfaces := PStr ''.*''\<rparr>))"
proof -
  have a: "scalar_options example_config"
    by (simp add: scalar_options_def example_config_def)
  have b: "scalar_options (example_config\<lparr>match_interfaces := PStr ''.*''\<rparr>)"
    by (simp add: scalar_options_def example_config_def)
  have c: "struct_eq (render example_config) (render (example_config\<lparr>match_interfaces := PStr ''.*''\<rparr>))"
    by (simp add: struct_eq_render example_config_def controller_endpoint_def virt_macs_def)
  have d: "example_config \<noteq> example_config\<lparr>match_interfaces := PStr ''.*''\<rparr>"
    by (simp add: example_config_def)
  from a b c d rendered_documents_fingerprint [OF a b c] show ?thesis by simp
qed

text \<open>
  The fingerprint has finitely many values and there are infinitely many rendered
  documents: equal fingerprints cannot imply equal documents.
\<close>

lemma add32_range: "add32 a b \<in> {0..<4294967296}"
  by (simp add: add32_def)

lemma sha256_compress_range:
  "length (sha256_compress hs block) \<le> length hs
   \<and> set (sha256_compress hs block) \<subseteq> {0..<4294967296}"
proof -
  have "set (map2 add32 hs xs) \<subseteq> {0..<4294967296}" for xs
    using add32_range by (auto simp: set_zip)
  then show ?thesis by (simp add: sha256_compress_def)
qed

lemma sha256_blocks_range:
  "set hs \<subseteq> {0..<4294967296} \<Longrightarrow>
   length (sha256_blocks hs ws) \<le> length hs \<and> set (sha256_blocks hs ws) \<subseteq> {0..<4294967296}"
proof (induction hs ws rule: sha256_blocks.induct)
  case (1 hs ws)
  show ?case
  proof (cases "length ws < 16")
    case True
    with 1 show ?thesis by (simp add: sha256_blocks.simps)
  next
    case False
    have eq: "sha256_blocks hs ws = sha256_blocks (sha256_compress hs (take 16 ws)) (drop 16 ws)"
      using False by (subst sha256_blocks.simps) simp
    from sha256_compress_range [of hs "take 16 ws"]
    have c: "length (sha256_compress hs (take 16 ws)) \<le> length hs"
      and r: "set (sha256_compress hs (take 16 ws)) \<subseteq> {0..<4294967296}" by simp_all
    from "1.IH" [OF False r] c show ?thesis unfolding eq by simp
  qed
qed

lemma finite_range_fingerprint: "finite (range fingerprint)"
proof -
  let ?D = "{ws :: u32 list. set ws \<subseteq> {0..<4294967296} \<and> length ws \<le> 8}"
  have "finite ?D"
    by (rule finite_lists_length_le) simp
  then have fin: "finite (hexdigest ` ?D)" by simp
  have "range fingerprint \<subseteq> hexdigest ` ?D"
  proof
    fix h assume "h \<in> range fingerprint"
    then obtain doc where h: "h = hexdigest (sha256 (utf8 (py_str doc)))"
      by (auto simp: fingerprint_def)
    have "length sha256_H0 = 8" "set sha256_H0 \<subseteq> {0..<4294967296}"
      by (simp_all add: sha256_H0_def)
    then have "sha256 (utf8 (py_str doc)) \<in> ?D"
      using sha256_blocks_range [of sha256_H0 "be_words (sha256_pad (utf8 (py_str doc)))"]
      by (simp add: sha256_def)
    with h show "h \<in> hexdigest ` ?D" by blast
  qed
  with fin show ?thesis by (rule finite_subset [rotated])
qed

lemma fingerprint_collides:
  "\<exists>c1 c2. scalar_options c1 \<and> scalar_options c2
      \<and> \<not> struct_eq (render c1) (render c2)
      \<and> fingerprint (render c1) = fingerprint (render c2)"
proof -
  let ?c = "\<lambda>n :: nat. example_config\<lparr>customer := PInt (int n)\<rparr>"
  let ?f = "\<lambda>n. fingerprint (render (?c n))"
  have "finite (range ?f)"
    by (rule finite_subset [OF _ finite_range_fingerprint]) auto
  then have "\<not> inj ?f"
    using finite_imageD [of ?f UNIV] by auto
  then obtain n m where nm: "n \<noteq> m" and eq: "?f n = ?f m"
    by (auto simp: inj_on_def)
  have "\<not> struct_eq (render (?c n)) (render (?c m))"
    using nm by (simp add: struct_eq_render)
  moreover have "scalar_options (?c n)" "scalar_options (?c m)"
    by (simp_all add: scalar_options_def example_config_def)
  ultimately show ?thesis using eq by blast
qed

text \<open>
  The fingerprints of the rendered example and of the same document with two keys in the
  other order, computed block by block.
\<close>

lemma utf8_rendered:
  "utf8 (py_str (render example_config)) =
    [123, 39, 100, 101, 98, 117, 103, 39, 58, 32, 70, 97, 108, 115, 101, 44, 32, 39, 99, 117,
     115, 116, 111, 109, 101, 114, 39, 58, 32, 123, 39, 110, 97, 109, 101, 39, 58, 32, 39, 97,
     99, 109, 101, 39, 44, 32, 39, 99, 108, 111, 117, 100, 95, 110, 97, 109, 101, 39, 58, 32,
     39, 107, 56, 115, 39, 125, 44, 32, 39, 106, 117, 106, 117, 39, 58, 32, 123, 39, 99, 111,
     110, 116, 114, 111, 108, 108, 101, 114, 95, 101, 110, 100, 112, 111, 105, 110, 116, 39, 58,
     32, 91, 39, 49, 48, 46, 48, 46, 48, 46, 49, 58, 49, 55, 48, 55, 48, 39, 93, 44, 32, 39, 99,
     111, 110, 116, 114, 111, 108, 108, 101, 114, 95, 99, 97, 99, 101, 114, 116, 39, 58, 32, 39,
     67, 69, 82, 84, 39, 44, 32, 39, 117, 115, 101, 114, 110, 97, 109, 101, 39, 58, 32, 39, 97,
     100, 109, 105, 110, 39, 44, 32, 39, 112, 97, 115, 115, 119, 111, 114, 100, 39, 58, 32, 39,
     115, 101, 99, 114, 101, 116, 39, 125, 44, 32, 39, 101, 120, 112, 111, 114, 116, 101, 114,
     39, 58, 32, 123, 39, 99, 111, 108, 108, 101, 99, 116, 95, 105, 110, 116, 101, 114, 118, 97,
     108, 39, 58, 32, 49, 53, 44, 32, 39, 112, 111, 114, 116, 39, 58, 32, 53, 48, 48, 48, 125,
     44, 32, 39, 100, 101, 116, 101, 99, 116, 105, 111, 110, 39, 58, 32, 123, 39, 118, 105, 114,
     116, 95, 109, 97, 99, 115, 39, 58, 32, 91, 39, 53, 50, 58, 53, 52, 58, 48, 48, 39, 44, 32,
     39, 102, 97, 58, 49, 54, 58, 51, 101, 39, 93, 44, 32, 39, 109, 97, 116, 99, 104, 95, 105,
     110, 116, 101, 114, 102, 97, 99, 101, 115, 39, 58, 32, 39, 46, 42, 39, 125, 125]"
  by (simp add: render_def example_config_def example_permuted_def controller_endpoint_def virt_macs_def
        repr_str_def repr_char_def utf8_def utf8_char_def str_of_int_def str_of_nat.simps
        digit_char_def backslash_def dquote_def Let_def)

lemma words_rendered:
  "be_words (sha256_pad
    [123, 39, 100, 101, 98, 117, 103, 39, 58, 32, 70, 97, 108, 115, 101, 44, 32, 39, 99, 117,
     115, 116, 111, 109, 101, 114, 39, 58, 32, 123, 39, 110, 97, 109, 101, 39, 58, 32, 39, 97,
     99, 109, 101, 39, 44, 32, 39, 99, 108, 111, 117, 100, 95, 110, 97, 109, 101, 39, 58, 32,
     39, 107, 56, 115, 39, 125, 44, 32, 39, 106, 117, 106, 117, 39, 58, 32, 123, 39, 99, 111,
     110, 116, 114, 111, 108, 108, 101, 114, 95, 101, 110, 100, 112, 111, 105, 110, 116, 39, 58,
     32, 91, 39, 49, 48, 46, 48, 46, 48, 46, 49, 58, 49, 55, 48, 55, 48, 39, 93, 44, 32, 39, 99,
     111, 110, 116, 114, 111, 108, 108, 101, 114, 95, 99, 97, 99, 101, 114, 116, 39, 58, 32, 39,
     67, 69, 82, 84, 39, 44, 32, 39, 117, 115, 101, 114, 110, 97, 109, 101, 39, 58, 32, 39, 97,
     100, 109, 105, 110, 39, 44, 32, 39, 112, 97, 115, 115, 119, 111, 114, 100, 39, 58, 32, 39,
     115, 101, 99, 114, 101, 116, 39, 125, 44, 32, 39, 101, 120, 112, 111, 114, 116, 101, 114,
     39, 58, 32, 123, 39, 99, 111, 108, 108, 101, 99, 116, 95, 105, 110, 116, 101, 114, 118, 97,
     108, 39, 58, 32, 49, 53, 44, 32, 39, 112, 111, 114, 116, 39, 58, 32, 53, 48, 48, 48, 125,
     44, 32, 39, 100, 101, 116, 101, 99, 116, 105, 111, 110, 39, 58, 32, 123, 39, 118, 105, 114,
     116, 95, 109, 97, 99, 115, 39, 58, 32, 91, 39, 53, 50, 58, 53, 52, 58, 48, 48, 39, 44, 32,
     39, 102, 97, 58, 49, 54, 58, 51, 101, 39, 93, 44, 32, 39, 109, 97, 116, 99, 104, 95, 105,
     110, 116, 101, 114, 102, 97, 99, 101, 115, 39, 58, 32, 39, 46, 42, 39, 125, 125]) =
    [2066179173, 1651861287, 975193697, 1819501868, 539452277, 1937010541, 1701979962,
     544941934, 1634559271, 975185761, 1668113703, 740304739, 1819243876, 1601069421,
     1697069600, 661338227, 662514720, 661288298, 1965505056, 2066178927, 1853125231,
     1819043186, 1600482916, 1886349678, 1948727840, 1529295152, 774909488, 774978097,
     925906736, 660417568, 660828014, 1953656684, 1818587743, 1667326821, 1920214842, 539444037,
     1381246764, 539456883, 1701998177, 1835345722, 539451748, 1835626023, 740304752,
     1634956151, 1869767719, 975185779, 1701016165, 1948745004, 539452792, 1886351988,
     1701979962, 544941923, 1869376613, 1668570985, 1853121906, 1986096167, 975188277,
     740304752, 1869771815, 975189296, 808484140, 539452517, 1952801652, 1768910375, 975207207,
     1986622068, 1601003875, 1931950624, 1529296178, 976565306, 808462124, 539453025, 976303674,
     862267229, 740304749, 1635017576, 1600745076, 1701996129, 1667592999, 975185710, 707231101,
     2147483648, 0, 0, 0, 0, 0, 0, 0, 0, 0, 0, 0, 0, 0, 2592]"
  by code_simp

lemma compress_rendered_0:
  "sha256_compress
    [1779033703, 3144134277, 1013904242, 2773480762, 1359893119, 2600822924, 528734635,
     1541459225]
    [2066179173, 1651861287, 975193697, 1819501868, 539452277, 1937010541, 1701979962,
     544941934, 1634559271, 975185761, 1668113703, 740304739, 1819243876, 1601069421,
     1697069600, 661338227] =
    [2743033234, 1185653331, 341885246, 2394256993, 1966138050, 1992536643, 2316448552,
     3978386790]"
  by code_simp

lemma compress_rendered_1:
  "sha256_compress
    [2743033234, 1185653331, 341885246, 2394256993, 1966138050, 1992536643, 2316448552,
     3978386790]
    [662514720, 661288298, 1965505056, 2066178927, 1853125231, 1819043186, 1600482916,
     1886349678, 1948727840, 1529295152, 774909488, 774978097, 925906736, 660417568, 660828014,
     1953656684] =
    [3265294640, 4090266659, 3716902851, 235221962, 1523475854, 3811424446, 3314467044,
     3169730986]"
  by code_simp

lemma compress_rendered_2:
  "sha256_compress
    [3265294640, 4090266659, 3716902851, 235221962, 1523475854, 3811424446, 3314467044,
     3169730986]
    [1818587743, 1667326821, 1920214842, 539444037, 1381246764, 539456883, 1701998177,
     1835345722, 539451748, 1835626023, 740304752, 1634956151, 1869767719, 975185779,
     1701016165, 1948745004] =
    [3667723989, 2338002991, 740632350, 88586693, 682980862, 1007321877, 415492785, 1817704998]"
  by code_simp

lemma compress_rendered_3:
  "sha256_compress
    [3667723989, 2338002991, 740632350, 88586693, 682980862, 1007321877, 415492785, 1817704998]
    [539452792, 1886351988, 1701979962, 544941923, 1869376613, 1668570985, 1853121906,
     1986096167, 975188277, 740304752, 1869771815, 975189296, 808484140, 539452517, 1952801652,
     1768910375] =
    [2830601361, 2500142064, 4008046458, 537025123, 3539966974, 3080178706, 3195205418,
     1771045231]"
  by code_simp

lemma compress_rendered_4:
  "sha256_compress
    [2830601361, 2500142064, 4008046458, 537025123, 3539966974, 3080178706, 3195205418,
     1771045231]
    [975207207, 1986622068, 1601003875, 1931950624, 1529296178, 976565306, 808462124, 539453025,
     976303674, 862267229, 740304749, 1635017576, 1600745076, 1701996129, 1667592999, 975185710] =
    [1680125525, 787662924, 649280501, 683829662, 765242465, 2268084406, 1487749655, 811303059]"
  by code_simp

lemma compress_rendered_5:
  "sha256_compress
    [1680125525, 787662924, 649280501, 683829662, 765242465, 2268084406, 1487749655, 811303059]
    [707231101, 2147483648, 0, 0, 0, 0, 0, 0, 0, 0, 0, 0, 0, 0, 0, 2592] =
    [3753596419, 1856925278, 2849156850, 3019506912, 1592450297, 1948384645, 3259381220,
     2304712619]"
  by code_simp

lemma sha256_rendered:
  "sha256 (utf8 (py_str (render example_config))) =
    [3753596419, 1856925278, 2849156850, 3019506912, 1592450297, 1948384645, 3259381220,
     2304712619]"
  by (simp add: sha256_def utf8_rendered words_rendered sha256_H0_def sha256_blocks.simps
        compress_rendered_0 compress_rendered_1 compress_rendered_2 compress_rendered_3 compress_rendered_4 compress_rendered_5)

lemma fingerprint_rendered:
  "fingerprint (render example_config) =
     ''dfbb56036eae6e5ea9d2aef2b3fa04e05eeadcf97421fd85c24635e4895f1fab''"
  by (simp add: fingerprint_def sha256_rendered hexdigest_def hex_word_def hex_digit_def)

lemma utf8_permuted:
  "utf8 (py_str (example_permuted)) =
    [123, 39, 100, 101, 98, 117, 103, 39, 58, 32, 70, 97, 108, 115, 101, 44, 32, 39, 99, 117,
     115, 116, 111, 109, 101, 114, 39, 58, 32, 123, 39, 110, 97, 109, 101, 39, 58, 32, 39, 97,
     99, 109, 101, 39, 44, 32, 39, 99, 108, 111, 117, 100, 95, 110, 97, 109, 101, 39, 58, 32,
     39, 107, 56, 115, 39, 125, 44, 32, 39, 106, 117, 106, 117, 39, 58, 32, 123, 39, 99, 111,
     110, 116, 114, 111, 108, 108, 101, 114, 95, 101, 110, 100, 112, 111, 105, 110, 116, 39, 58,
     32, 91, 39, 49, 48, 46, 48, 46, 48, 46, 49, 58, 49, 55, 48, 55, 48, 39, 93, 44, 32, 39, 99,
     111, 110, 116, 114, 111, 108, 108, 101, 114, 95, 99, 97, 99, 101, 114, 116, 39, 58, 32, 39,
     67, 69, 82, 84, 39, 44, 32, 39, 117, 115, 101, 114, 110, 97, 109, 101, 39, 58, 32, 39, 97,
     100, 109, 105, 110, 39, 44, 32, 39, 112, 97, 115, 115, 119, 111, 114, 100, 39, 58, 32, 39,
     115, 101, 99, 114, 101, 116, 39, 125, 44, 32, 39, 101, 120, 112, 111, 114, 116, 101, 114,
     39, 58, 32, 123, 39, 99, 111, 108, 108, 101, 99, 116, 95, 105, 110, 116, 101, 114, 118, 97,
     108, 39, 58, 32, 49, 53, 44, 32, 39, 112, 111, 114, 116, 39, 58, 32, 53, 48, 48, 48, 125,
     44, 32, 39, 100, 101, 116, 101, 99, 116, 105, 111, 110, 39, 58, 32, 123, 39, 109, 97, 116,
     99, 104, 95, 105, 110, 116, 101, 114, 102, 97, 99, 101, 115, 39, 58, 32, 39, 46, 42, 39,
     44, 32, 39, 118, 105, 114, 116, 95, 109, 97, 99, 115, 39, 58, 32, 91, 39, 53, 50, 58, 53,
     52, 58, 48, 48, 39, 44, 32, 39, 102, 97, 58, 49, 54, 58, 51, 101, 39, 93, 125, 125]"
  by (simp add: render_def example_config_def example_permuted_def controller_endpoint_def virt_macs_def
        repr_str_def repr_char_def utf8_def utf8_char_def str_of_int_def str_of_nat.simps
        digit_char_def backslash_def dquote_def Let_def)

lemma words_permuted:
  "be_words (sha256_pad
    [123, 39, 100, 101, 98, 117, 103, 39, 58, 32, 70, 97, 108, 115, 101, 44, 32, 39, 99, 117,
     115, 116, 111, 109, 101, 114, 39, 58, 32, 123, 39, 110, 97, 109, 101, 39, 58, 32, 39, 97,
     99, 109, 101, 39, 44, 32, 39, 99, 108, 111, 117, 100, 95, 110, 97, 109, 101, 39, 58, 32,
     39, 107, 56, 115, 39, 125, 44, 32, 39, 106, 117, 106, 117, 39, 58, 32, 123, 39, 99, 111,
     110, 116, 114, 111, 108, 108, 101, 114, 95, 101, 110, 100, 112, 111, 105, 110, 116, 39, 58,
     32, 91, 39, 49, 48, 46, 48, 46, 48, 46, 49, 58, 49, 55, 48, 55, 48, 39, 93, 44, 32, 39, 99,
     111, 110, 116, 114, 111, 108, 108, 101, 114, 95, 99, 97, 99, 101, 114, 116, 39, 58, 32, 39,
     67, 69, 82, 84, 39, 44, 32, 39, 117, 115, 101, 114, 110, 97, 109, 101, 39, 58, 32, 39, 97,
     100, 109, 105, 110, 39, 44, 32, 39, 112, 97, 115, 115, 119, 111, 114, 100, 39, 58, 32, 39,
     115, 101, 99, 114, 101, 116, 39, 125, 44, 32, 39, 101, 120, 112, 111, 114, 116, 101, 114,
     39, 58, 32, 123, 39, 99, 111, 108, 108, 101, 99, 116, 95, 105, 110, 116, 101, 114, 118, 97,
     108, 39, 58, 32, 49, 53, 44, 32, 39, 112, 111, 114, 116, 39, 58, 32, 53, 48, 48, 48, 125,
     44, 32, 39, 100, 101, 116, 101, 99, 116, 105, 111, 110, 39, 58, 32, 123, 39, 109, 97, 116,
     99, 104, 95, 105, 110, 116, 101, 114, 102, 97, 99, 101, 115, 39, 58, 32, 39, 46, 42, 39,
     44, 32, 39, 118, 105, 114, 116, 95, 109, 97, 99, 115, 39, 58, 32, 91, 39, 53, 50, 58, 53,
     52, 58, 48, 48, 39, 44, 32, 39, 102, 97, 58, 49, 54, 58, 51, 101, 39, 93, 125, 125]) =
    [2066179173, 1651861287, 975193697, 1819501868, 539452277, 1937010541, 1701979962,
     544941934, 1634559271, 975185761, 1668113703, 740304739, 1819243876, 1601069421,
     1697069600, 661338227, 662514720, 661288298, 1965505056, 2066178927, 1853125231,
     1819043186, 1600482916, 1886349678, 1948727840, 1529295152, 774909488, 774978097,
     925906736, 660417568, 660828014, 1953656684, 1818587743, 1667326821, 1920214842, 539444037,
     1381246764, 539456883, 1701998177, 1835345722, 539451748, 1835626023, 740304752,
     1634956151, 1869767719, 975185779, 1701016165, 1948745004, 539452792, 1886351988,
     1701979962, 544941923, 1869376613, 1668570985, 1853121906, 1986096167, 975188277,
     740304752, 1869771815, 975189296, 808484140, 539452517, 1952801652, 1768910375, 975207207,
     1835103331, 1751083374, 1952805478, 1633903987, 658120743, 774514476, 539457129,
     1920229229, 1633907495, 975199015, 892484149, 876228656, 657203239, 1717647921, 909783909,
     660438397, 2147483648, 0, 0, 0, 0, 0, 0, 0, 0, 0, 0, 0, 0, 0, 2592]"
  by code_simp

lemma compress_permuted_4:
  "sha256_compress
    [2830601361, 2500142064, 4008046458, 537025123, 3539966974, 3080178706, 3195205418,
     1771045231]
    [975207207, 1835103331, 1751083374, 1952805478, 1633903987, 658120743, 774514476, 539457129,
     1920229229, 1633907495, 975199015, 892484149, 876228656, 657203239, 1717647921, 909783909] =
    [2643920771, 2508005079, 3758654587, 125186896, 2034318497, 3628651705, 3101210460,
     281266671]"
  by code_simp

lemma compress_permuted_5:
  "sha256_compress
    [2643920771, 2508005079, 3758654587, 125186896, 2034318497, 3628651705, 3101210460,
     281266671]
    [660438397, 2147483648, 0, 0, 0, 0, 0, 0, 0, 0, 0, 0, 0, 0, 0, 2592] =
    [1960690306, 1457623604, 1794179223, 798198150, 1845298012, 4057394525, 3876914532,
     846149828]"
  by code_simp

lemma sha256_permuted:
  "sha256 (utf8 (py_str (example_permuted))) =
    [1960690306, 1457623604, 1794179223, 798198150, 1845298012, 4057394525, 3876914532,
     846149828]"
  by (simp add: sha256_def utf8_permuted words_permuted sha256_H0_def sha256_blocks.simps
        compress_rendered_0 compress_rendered_1 compress_rendered_2 compress_rendered_3 compress_permuted_4 compress_permuted_5)

lemma fingerprint_permuted:
  "fingerprint (example_permuted) =
     ''74ddc28256e192346af100972f9389866dfd035cf1d6ed5de7150564326f38c4''"
  by (simp add: fingerprint_def sha256_permuted hexdigest_def hex_word_def hex_digit_def)


text \<open>
  Claim C3 says that two structurally equal documents have the same fingerprint whatever
  the order of their keys. The rendered example and the document that lists the two keys of
  \<^verbatim>\<open>detection\<close> in the other order are structurally equal, and their fingerprints differ.
\<close>

theorem fingerprint_key_order_counterexample:
  "struct_eq (render example_config) example_permuted
   \<and> fingerprint (render example_config) \<noteq> fingerprint example_permuted"
proof -
  have "struct_eq (render example_config) example_permuted"
    by (auto simp: render_def example_config_def example_permuted_def controller_endpoint_def
          virt_macs_def)
  then show ?thesis
    by (simp add: fingerprint_rendered fingerprint_permuted)
qed

end
